theory Spec2Isabelle
  imports Complex_Main "HOL-Library.Word" "HOL-Library.Sublist"
begin

section \<open>JavaScript values used by the SDK\<close>

text \<open>
  The file validator (\<open>FileValidator\<close>) and the security scanner (\<open>SecurityScanner\<close>)
  are embedded as HOL functions. A JavaScript exception is a value of \<open>js_error\<close> and a
  computation that may throw returns \<open>js_error + 'a\<close>, with \<open>Inl\<close> for the exception.
  A DOM \<open>File\<close> is an in-memory byte buffer with a name and a declared MIME type; its
  \<open>size\<close> is the length of the buffer. An argument that may be \<open>null\<close> or
  \<open>undefined\<close> at run time (the source tests \<open>!file\<close>) has type \<open>File option\<close>.
  Strings are \<open>string\<close>; upper and lower case are those of ASCII.
\<close>

datatype js_error = TypeError | Error string

type_synonym byte = "8 word"

record File =
  file_name :: string
  file_type :: string
  file_bytes :: "byte list"
  file_lastModified :: nat

definition file_size :: "File \<Rightarrow> nat" where
  "file_size f = length (file_bytes f)"

text \<open>
  A regular expression is kept as its source text and flags. Matching is done by the
  JavaScript engine, and decoding, hashing, the clock and the network by the platform:
  they are the fields of \<open>js_runtime\<close>, and every theorem below holds for every runtime.
  \<open>regex_match_count r s\<close> is the length of the array \<open>s.match(r)\<close>, and 0 when the
  result is \<open>null\<close>.
\<close>

datatype RegExp = RegExp (source: string) (flags: string)

datatype json_threats =
    NoThreats
  | NotIterable
  | ThreatItems "(string \<times> string) option list"

datatype virus_response =
    FetchFailed
  | NotOk string
  | JsonFailed
  | Body bool json_threats

record js_runtime =
  regex_test :: "RegExp \<Rightarrow> string \<Rightarrow> bool"
  regex_match_count :: "RegExp \<Rightarrow> string \<Rightarrow> nat"
  decode_text :: "byte list \<Rightarrow> string"
  digest_hex :: "byte list \<Rightarrow> js_error + string"
  fetch_scan :: "string \<Rightarrow> File option \<Rightarrow> virus_response"
  now_start :: nat
  now_end :: nat

subsection \<open>String helpers\<close>

definition toLowerCase_char :: "char \<Rightarrow> char" where
  "toLowerCase_char c =
     (case map_of (zip ''ABCDEFGHIJKLMNOPQRSTUVWXYZ'' ''abcdefghijklmnopqrstuvwxyz'') c of
        Some l \<Rightarrow> l
      | None \<Rightarrow> c)"

definition toLowerCase :: "string \<Rightarrow> string" where
  "toLowerCase s = map toLowerCase_char s"

fun startsWith :: "string \<Rightarrow> string \<Rightarrow> bool" where
  "startsWith s [] = True"
| "startsWith [] (p # ps) = False"
| "startsWith (c # cs) (p # ps) = (c = p \<and> startsWith cs ps)"

definition endsWith :: "string \<Rightarrow> string \<Rightarrow> bool" where
  "endsWith s searchString = startsWith (rev s) (rev searchString)"

fun string_includes :: "string \<Rightarrow> string \<Rightarrow> bool" where
  "string_includes [] sub = (sub = [])"
| "string_includes (c # cs) sub = (startsWith (c # cs) sub \<or> string_includes cs sub)"

text \<open>\<open>s.split(sep)\<close> for a one-character separator: never an empty array.\<close>

fun split_on :: "char \<Rightarrow> string \<Rightarrow> string list" where
  "split_on sep [] = [[]]"
| "split_on sep (c # cs) =
     (if c = sep then [] # split_on sep cs
      else (case split_on sep cs of
              [] \<Rightarrow> [[c]]
            | p # ps \<Rightarrow> (c # p) # ps))"

fun join :: "string \<Rightarrow> string list \<Rightarrow> string" where
  "join sep [] = []"
| "join sep [x] = x"
| "join sep (x # y # ys) = x @ sep @ join sep (y # ys)"

definition digit_char :: "nat \<Rightarrow> char" where
  "digit_char d = ''0123456789'' ! (d mod 10)"

fun string_of_nat :: "nat \<Rightarrow> string" where
  "string_of_nat n =
     (if n < 10 then [digit_char n] else string_of_nat (n div 10) @ [digit_char (n mod 10)])"

declare string_of_nat.simps [simp del]

section \<open>File validator\<close>

record FileValidationConfig =
  maxFileSize :: nat
  allowedMimeTypes :: "string list"
  allowedExtensions :: "string list"
  maxFiles :: nat
  requireHash :: bool

record FileMetadata =
  md_name :: string
  md_size :: nat
  md_type :: string
  md_extension :: string
  md_hash :: "string option"
  md_lastModified :: nat

record ValidationResult =
  isValid :: bool
  errors :: "string list"
  warnings :: "string list"
  metadata :: "FileMetadata option"

definition getFileExtension :: "string \<Rightarrow> string" where
  "getFileExtension filename =
     (let parts = split_on (CHR ''.'') filename
      in if length parts > 1 then toLowerCase (last parts) else [])"

definition isMatchingMimeType :: "string \<Rightarrow> string \<Rightarrow> bool" where
  "isMatchingMimeType fileType allowedType =
     (if endsWith allowedType ''/*''
      then (let prefix = take (length allowedType - 2) allowedType
            in startsWith fileType prefix)
      else fileType = allowedType)"

subsection \<open>Magic bytes\<close>

definition signatures :: "(string \<times> byte list list) list" where
  "signatures =
     [(''image/jpeg'', [[0xFF, 0xD8, 0xFF]]),
      (''image/png'', [[0x89, 0x50, 0x4E, 0x47, 0x0D, 0x0A, 0x1A, 0x0A]]),
      (''image/gif'', [[0x47, 0x49, 0x46, 0x38, 0x37, 0x61], [0x47, 0x49, 0x46, 0x38, 0x39, 0x61]]),
      (''application/pdf'', [[0x25, 0x50, 0x44, 0x46]]),
      (''text/plain'', [])]"

text \<open>
  \<open>signatures\<close> is an object literal, so \<open>signatures[file.type]\<close> also finds what the
  literal inherits from \<open>Object.prototype\<close>: functions, whose \<open>length\<close> is their
  arity, and under \<open>__proto__\<close> the prototype itself, which has no \<open>length\<close>. None of
  them has a method \<open>some\<close>.
\<close>

definition object_prototype :: "(string \<times> nat option) list" where
  "object_prototype =
     [(''constructor'', Some 1), (''__defineGetter__'', Some 2), (''__defineSetter__'', Some 2),
      (''hasOwnProperty'', Some 1), (''__lookupGetter__'', Some 1), (''__lookupSetter__'', Some 1),
      (''isPrototypeOf'', Some 1), (''propertyIsEnumerable'', Some 1), (''toString'', Some 0),
      (''valueOf'', Some 0), (''__proto__'', None), (''toLocaleString'', Some 0)]"

datatype property = Own "byte list list" | Inherited "nat option" | Undefined

definition signatures_get :: "string \<Rightarrow> property" where
  "signatures_get key =
     (case map_of signatures key of
        Some sigs \<Rightarrow> Own sigs
      | None \<Rightarrow> (case map_of object_prototype key of
                   Some len \<Rightarrow> Inherited len
                 | None \<Rightarrow> Undefined))"

text \<open>
  \<open>signature.every((byte, index) => bytes[index] === byte)\<close>: an index past the end of
  \<open>bytes\<close> reads \<open>undefined\<close>, which equals no byte.
\<close>

fun every_from :: "nat \<Rightarrow> byte list \<Rightarrow> byte list \<Rightarrow> bool" where
  "every_from index [] bytes = True"
| "every_from index (b # bs) bytes =
     (index < length bytes \<and> bytes ! index = b \<and> every_from (Suc index) bs bytes)"

definition validateMagicBytes_try :: "File \<Rightarrow> js_error + (bool \<times> string option)" where
  "validateMagicBytes_try file =
     (let bytes = take 16 (file_bytes file)
      in if file_type file = [] \<or> file_type file = ''application/octet-stream''
         then Inr (True, None)
         else (case signatures_get (file_type file) of
                 Undefined \<Rightarrow> Inr (True, None)
               | Inherited len \<Rightarrow> (if len = Some 0 then Inr (True, None) else Inl TypeError)
               | Own expectedSignatures \<Rightarrow>
                   (if length expectedSignatures = 0 then Inr (True, None)
                    else (let ok = list_ex (\<lambda>signature. every_from 0 signature bytes)
                                     expectedSignatures
                          in Inr (ok,
                                  if ok then None
                                  else Some (''File signature does not match expected type ''
                                             @ file_type file))))))"

definition validateMagicBytes :: "File \<Rightarrow> js_error + (bool \<times> string option)" where
  "validateMagicBytes file =
     (case validateMagicBytes_try file of
        Inr r \<Rightarrow> Inr r
      | Inl e \<Rightarrow> Inr (False, Some ''Could not read file signature''))"

definition generateFileHash :: "js_runtime \<Rightarrow> File \<Rightarrow> js_error + string" where
  "generateFileHash rt file = digest_hex rt (file_bytes file)"

subsection \<open>Sizes in words\<close>

text \<open>
  \<open>formatBytes\<close> takes \<open>i = Math.floor(Math.log(bytes) / Math.log(1024))\<close>; the model
  computes this floor on the natural numbers. Below \<open>2^53\<close> the quotient
  \<open>bytes / Math.pow(1024, i)\<close> is exact, \<open>toFixed(2)\<close> rounds it to hundredths, ties
  upwards, and \<open>parseFloat\<close> followed by the conversion to a string drops trailing zeros.
  \<open>sizes[i]\<close> is \<open>undefined\<close> from \<open>i = 4\<close> on.
\<close>

fun floor_log1024 :: "nat \<Rightarrow> nat" where
  "floor_log1024 n = (if n < 1024 then 0 else Suc (floor_log1024 (n div 1024)))"

declare floor_log1024.simps [simp del]

definition sizes :: "string list" where
  "sizes = [''B'', ''KB'', ''MB'', ''GB'']"

definition toFixed2 :: "nat \<Rightarrow> nat \<Rightarrow> nat" where
  "toFixed2 bytes d = (200 * bytes + d) div (2 * d)"

definition hundredths_string :: "nat \<Rightarrow> string" where
  "hundredths_string h =
     (let whole = h div 100; frac = h mod 100
      in string_of_nat whole @
         (if frac = 0 then []
          else if frac mod 10 = 0 then ''.'' @ [digit_char (frac div 10)]
          else ''.'' @ [digit_char (frac div 10), digit_char (frac mod 10)]))"

definition formatBytes :: "nat \<Rightarrow> string" where
  "formatBytes bytes =
     (if bytes = 0 then ''0 B''
      else (let i = floor_log1024 bytes
            in hundredths_string (toFixed2 bytes (1024 ^ i)) @ '' '' @
               (if i < length sizes then sizes ! i else ''undefined'')))"

subsection \<open>validateFile and validateFiles\<close>

definition size_error :: "FileValidationConfig \<Rightarrow> File \<Rightarrow> string" where
  "size_error cfg file =
     ''File size '' @ formatBytes (file_size file) @ '' exceeds maximum allowed size ''
       @ formatBytes (maxFileSize cfg)"

definition type_error :: "FileValidationConfig \<Rightarrow> File \<Rightarrow> string" where
  "type_error cfg file =
     ''File type '' @ file_type file @ '' is not allowed. Allowed types: ''
       @ join '', '' (allowedMimeTypes cfg)"

definition extension_error :: "FileValidationConfig \<Rightarrow> File \<Rightarrow> string" where
  "extension_error cfg file =
     ''File extension '' @ getFileExtension (file_name file)
       @ '' is not allowed. Allowed extensions: '' @ join '', '' (allowedExtensions cfg)"

definition validateFile :: "js_runtime \<Rightarrow> FileValidationConfig \<Rightarrow> File option \<Rightarrow> ValidationResult" where
  "validateFile rt cfg fo =
     (case fo of
        None \<Rightarrow>
          \<lparr>isValid = False, errors = [''File is required''], warnings = [], metadata = None\<rparr>
      | Some file \<Rightarrow>
          if file_name file = []
          then \<lparr>isValid = False, errors = [''File name is required''], warnings = [],
                 metadata = None\<rparr>
          else (let md = \<lparr>md_name = file_name file, md_size = file_size file,
                           md_type = file_type file,
                           md_extension = getFileExtension (file_name file),
                           md_hash = None,
                           md_lastModified =
                             (if file_lastModified file = 0 then now_start rt
                              else file_lastModified file)\<rparr>;
                    errors1 = (if file_size file > maxFileSize cfg
                               then [size_error cfg file] else []);
                    errors2 = (if length (allowedMimeTypes cfg) > 0 \<and>
                                  \<not> list_ex (\<lambda>allowedType.
                                               isMatchingMimeType (file_type file) allowedType)
                                       (allowedMimeTypes cfg)
                               then errors1 @ [type_error cfg file] else errors1);
                    errors3 = (if length (allowedExtensions cfg) > 0 \<and>
                                  toLowerCase (md_extension md) \<notin> set (allowedExtensions cfg)
                               then errors2 @ [extension_error cfg file] else errors2);
                    magic = (case validateMagicBytes file of
                               Inr (ok, err) \<Rightarrow>
                                 (if \<not> ok
                                  then (errors3 @
                                          [case err of
                                             None \<Rightarrow> ''File signature validation failed''
                                           | Some e \<Rightarrow>
                                               if e = [] then ''File signature validation failed''
                                               else e],
                                        [])
                                  else (errors3, []))
                             | Inl e \<Rightarrow> (errors3, [''Could not validate file signature'']));
                    hashed = (if requireHash cfg
                              then (case generateFileHash rt file of
                                      Inr h \<Rightarrow> (md\<lparr>md_hash := Some h\<rparr>, snd magic)
                                    | Inl e \<Rightarrow>
                                        (md, snd magic @ [''Could not generate file hash'']))
                              else (md, snd magic))
                in \<lparr>isValid = (length (fst magic) = 0), errors = fst magic,
                     warnings = snd hashed, metadata = Some (fst hashed)\<rparr>))"

definition file_label :: "File option \<Rightarrow> string" where
  "file_label fo =
     (case fo of
        None \<Rightarrow> ''unknown''
      | Some file \<Rightarrow> if file_name file = [] then ''unknown'' else file_name file)"

definition label_prefix :: "nat \<Rightarrow> File option \<Rightarrow> string" where
  "label_prefix index fo =
     ''File '' @ string_of_nat (index + 1) @ '' ('' @ file_label fo @ ''): ''"

text \<open>
  The \<open>forEach\<close> over the results, from \<open>index\<close> on, pushing onto \<open>allErrors\<close> and
  \<open>allWarnings\<close>; \<open>files[index]?.name || 'unknown'\<close> is \<open>file_label\<close>.
\<close>

fun forEach_result ::
  "nat \<Rightarrow> (File option \<times> ValidationResult) list \<Rightarrow> string list \<times> string list
     \<Rightarrow> string list \<times> string list" where
  "forEach_result index [] acc = acc"
| "forEach_result index ((fo, result) # rest) (allErrors, allWarnings) =
     forEach_result (Suc index) rest
       (if \<not> isValid result
        then allErrors @ map (\<lambda>error. label_prefix index fo @ error) (errors result)
        else allErrors,
        allWarnings @ map (\<lambda>warning. label_prefix index fo @ warning) (warnings result))"

definition too_many_error :: "FileValidationConfig \<Rightarrow> nat \<Rightarrow> string" where
  "too_many_error cfg n =
     ''Too many files. Maximum allowed: '' @ string_of_nat (maxFiles cfg) @ '', provided: ''
       @ string_of_nat n"

definition validateFiles :: "js_runtime \<Rightarrow> FileValidationConfig \<Rightarrow> File option list \<Rightarrow> ValidationResult" where
  "validateFiles rt cfg files =
     (let allErrors0 = (if length files > maxFiles cfg
                        then [too_many_error cfg (length files)] else []);
          results = map (validateFile rt cfg) files;
          (allErrors, allWarnings) = forEach_result 0 (zip files results) (allErrors0, [])
      in \<lparr>isValid = (length allErrors = 0), errors = allErrors, warnings = allWarnings,
           metadata = None\<rparr>)"

definition DEFAULT_CONFIGS_GENERAL :: FileValidationConfig where
  "DEFAULT_CONFIGS_GENERAL =
     \<lparr>maxFileSize = 10 * 1024 * 1024,
      allowedMimeTypes = [''image/*'', ''application/pdf'', ''text/*''],
      allowedExtensions = [''jpg'', ''jpeg'', ''png'', ''gif'', ''webp'', ''pdf'', ''txt''],
      maxFiles = 10,
      requireHash = True\<rparr>"

section \<open>Security scanner\<close>

datatype severity = Low | Medium | High | Critical

datatype threat_kind = Virus | Malware | Injection | SuspiciousContent | YaraMatch

record SecurityThreat =
  threat_type :: threat_kind
  threat_name :: string
  severity :: severity
  description :: string
  threat_signature :: "string option"
  threat_offset :: "nat option"

record SecuritySignature =
  sig_name :: string
  sig_pattern :: RegExp
  sig_severity :: severity
  sig_description :: string

record SecurityScanConfig =
  enableVirusScanning :: bool
  enableInjectionDetection :: bool
  enableYaraScanning :: bool
  enableSandboxing :: bool
  virusScannerEndpoint :: "string option"
  yaraRules :: "string list option"
  customSignatures :: "SecuritySignature list option"
  suspiciousPatterns :: "RegExp list option"

text \<open>
  \<open>confidence\<close> is a JavaScript number, an IEEE 754 double. The record holds its exact
  value, a rational; \<open>js_confidence\<close> below computes it with the roundings of the double
  operations.
\<close>

record SecurityScanResult =
  isClean :: bool
  threats :: "SecurityThreat list"
  scanTime :: int
  scanner :: string
  confidence :: rat
  quarantined :: bool

definition threat :: "threat_kind \<Rightarrow> string \<Rightarrow> severity \<Rightarrow> string \<Rightarrow> SecurityThreat" where
  "threat k n s d =
     \<lparr>threat_type = k, threat_name = n, severity = s, description = d,
      threat_signature = None, threat_offset = None\<rparr>"

definition matchesSignature :: "byte list \<Rightarrow> byte list \<Rightarrow> bool" where
  "matchesSignature bytes sig =
     (if length bytes < length sig then False else every_from 0 sig bytes)"

definition matchesYaraRule :: "byte list \<Rightarrow> string \<Rightarrow> bool" where
  "matchesYaraRule content rule = (string_includes rule ''malware'' \<and> length content > 0)"

definition executableSignatures :: "(byte list \<times> string \<times> severity) list" where
  "executableSignatures =
     [([0x4d, 0x5a], ''Windows PE Executable'', Critical),
      ([0x7f, 0x45, 0x4c, 0x46], ''Linux ELF Executable'', Critical),
      ([0xfe, 0xed, 0xfa, 0xce], ''Mach-O Executable'', Critical),
      ([0xca, 0xfe, 0xba, 0xbe], ''Java Class File'', High),
      ([0x50, 0x4b, 0x03, 0x04], ''ZIP Archive (potential)'', Medium)]"

definition scriptPatterns :: "RegExp list" where
  "scriptPatterns =
     [RegExp ''<script[^>]*>'' ''i'',
      RegExp ''javascript:'' ''i'',
      RegExp ''vbscript:'' ''i'',
      RegExp (''on'' @ [CHR 0x5C] @ ''w+'' @ [CHR 0x5C] @ ''s*='') ''i'',
      RegExp ''<iframe[^>]*>'' ''i'',
      RegExp ''<embed[^>]*>'' ''i'',
      RegExp ''<object[^>]*>'' ''i'']"

text \<open>
  Each detector whose body is inside \<open>try { ... } catch\<close> returns the threats pushed
  before the exception. With a \<open>null\<close> file the first statement of the body throws
  a \<open>TypeError\<close>, before any push.
\<close>

definition disguise_threat :: "File \<Rightarrow> byte list \<Rightarrow> byte list \<times> string \<times> severity \<Rightarrow> SecurityThreat list" where
  "disguise_threat file bytes sig =
     (case sig of (signature, name, sev) \<Rightarrow>
        if matchesSignature bytes signature
        then (if name = ''ZIP Archive (potential)'' \<and>
                 (file_type file = ''application/zip'' \<or>
                  file_type file = ''application/x-zip-compressed'' \<or>
                  endsWith (toLowerCase (file_name file)) ''.zip'')
              then []
              else [threat SuspiciousContent name sev
                      (''File contains '' @ name @ '' signature but is disguised as ''
                         @ file_type file)])
        else [])"

definition validateMimeAndMagicBytes :: "js_runtime \<Rightarrow> File option \<Rightarrow> js_error + SecurityThreat list" where
  "validateMimeAndMagicBytes rt fo =
     (case fo of
        None \<Rightarrow> Inr []
      | Some file \<Rightarrow>
          (let bytes = take 64 (file_bytes file);
               found = concat (map (disguise_threat file bytes) executableSignatures);
               headerText = decode_text rt bytes
           in Inr (found @
                   (if list_ex (\<lambda>pattern. regex_test rt pattern headerText) scriptPatterns
                    then [threat Injection ''Script Injection'' High
                            ''File contains potentially malicious script code'']
                    else []))))"

definition injectionPatterns :: "(RegExp \<times> string \<times> severity \<times> string) list" where
  "injectionPatterns =
     [(RegExp (''('' @ [CHR 0x5C] @ ''bSELECT'' @ [CHR 0x5C] @ ''b|'' @ [CHR 0x5C] @ ''bINSERT''
               @ [CHR 0x5C] @ ''b|'' @ [CHR 0x5C] @ ''bUPDATE'' @ [CHR 0x5C] @ ''b|'' @ [CHR 0x5C]
               @ ''bDELETE'' @ [CHR 0x5C] @ ''b|'' @ [CHR 0x5C] @ ''bDROP'' @ [CHR 0x5C] @ ''b|''
               @ [CHR 0x5C] @ ''bUNION'' @ [CHR 0x5C] @ ''b).*('' @ [CHR 0x5C] @ ''bFROM''
               @ [CHR 0x5C] @ ''b|'' @ [CHR 0x5C] @ ''bWHERE'' @ [CHR 0x5C] @ ''b|'' @ [CHR 0x5C]
               @ ''bINTO'' @ [CHR 0x5C] @ ''b)'') ''gi'',
       ''SQL Injection'', High, ''File contains potential SQL injection patterns''),
      (RegExp (''<'' @ [CHR 0x5C] @ ''s*script[^>]*>.*?<'' @ [CHR 0x5C] @ ''/'' @ [CHR 0x5C]
               @ ''s*script'' @ [CHR 0x5C] @ ''s*>'') ''gi'',
       ''Cross-Site Scripting (XSS)'', High,
       ''File contains script tags that could execute malicious code''),
      (RegExp (''('' @ [CHR 0x5C] @ ''beval'' @ [CHR 0x5C] @ ''b|'' @ [CHR 0x5C] @ ''bexec''
               @ [CHR 0x5C] @ ''b|'' @ [CHR 0x5C] @ ''bsystem'' @ [CHR 0x5C] @ ''b|'' @ [CHR 0x5C]
               @ ''bshell_exec'' @ [CHR 0x5C] @ ''b|'' @ [CHR 0x5C] @ ''bpassthru'' @ [CHR 0x5C]
               @ ''b)'' @ [CHR 0x5C] @ ''s*'' @ [CHR 0x5C] @ ''('') ''gi'',
       ''Code Injection'', Critical, ''File contains code execution functions''),
      (RegExp (''('' @ [CHR 0x5C] @ ''$'' @ [CHR 0x5C] @ ''{|'' @ [CHR 0x5C] @ ''#'' @ [CHR 0x5C]
               @ ''{).*'' @ [CHR 0x5C] @ ''}'') ''g'',
       ''Template Injection'', Medium, ''File contains template injection patterns''),
      (RegExp (''(cmd'' @ [CHR 0x5C] @ ''.exe|powershell|bash|sh)'' @ [CHR 0x5C] @ ''s+[''
               @ [CHR 0x5C] @ ''/'' @ [CHR 0x5C] @ ''-]'') ''gi'',
       ''Command Injection'', High, ''File contains command execution patterns'')]"

definition injection_threat :: "js_runtime \<Rightarrow> string \<Rightarrow> RegExp \<times> string \<times> severity \<times> string \<Rightarrow> SecurityThreat list" where
  "injection_threat rt text p =
     (case p of (pattern, name, sev, descr) \<Rightarrow>
        (let matches = regex_match_count rt pattern text
         in if matches > 0
            then [threat Injection name sev
                    (descr @ '' ('' @ string_of_nat matches @ '' matches found)'')]
            else []))"

definition custom_pattern_threat :: "js_runtime \<Rightarrow> string \<Rightarrow> RegExp \<Rightarrow> SecurityThreat list" where
  "custom_pattern_threat rt text pattern =
     (if regex_test rt pattern text
      then [threat SuspiciousContent ''Custom Pattern Match'' Medium
              ''File matches custom suspicious pattern'']
      else [])"

definition detectInjectionPatterns :: "js_runtime \<Rightarrow> SecurityScanConfig \<Rightarrow> File option \<Rightarrow> js_error + SecurityThreat list" where
  "detectInjectionPatterns rt cfg fo =
     (case fo of
        None \<Rightarrow> Inr []
      | Some file \<Rightarrow>
          (let text = decode_text rt (file_bytes file)
           in Inr (concat (map (injection_threat rt text) injectionPatterns) @
                   (case suspiciousPatterns cfg of
                      None \<Rightarrow> []
                    | Some patterns \<Rightarrow> concat (map (custom_pattern_threat rt text) patterns)))))"

definition yara_threat :: "byte list \<Rightarrow> string \<Rightarrow> SecurityThreat list" where
  "yara_threat content rule =
     (if matchesYaraRule content rule
      then [threat YaraMatch (''YARA Rule: '' @ rule) High (''File matches YARA rule: '' @ rule)]
      else [])"

definition scanWithYaraRules :: "SecurityScanConfig \<Rightarrow> File option \<Rightarrow> js_error + SecurityThreat list" where
  "scanWithYaraRules cfg fo =
     (case yaraRules cfg of
        None \<Rightarrow> Inr []
      | Some rules \<Rightarrow>
          (case fo of
             None \<Rightarrow> Inr []
           | Some file \<Rightarrow>
               (let content = file_bytes file
                in Inr (concat (map (yara_threat content) rules)))))"

definition initializeDefaultSignatures :: "SecuritySignature list" where
  "initializeDefaultSignatures =
     [\<lparr>sig_name = ''Base64 Encoded Executable'',
       sig_pattern = RegExp ''TVqQAAMAAAAEAAAA'' ''g'',
       sig_severity = High,
       sig_description = ''File contains base64 encoded executable''\<rparr>,
      \<lparr>sig_name = ''Suspicious PowerShell'',
       sig_pattern = RegExp ''(Invoke-Expression|IEX|DownloadString|EncodedCommand)'' ''gi'',
       sig_severity = High,
       sig_description = ''File contains suspicious PowerShell commands''\<rparr>,
      \<lparr>sig_name = ''Obfuscated JavaScript'',
       sig_pattern =
         RegExp (''eval'' @ [CHR 0x5C] @ ''s*'' @ [CHR 0x5C] @ ''('' @ [CHR 0x5C] @ ''s*unescape''
                 @ [CHR 0x5C] @ ''s*'' @ [CHR 0x5C] @ ''(|String'' @ [CHR 0x5C]
                 @ ''.fromCharCode|'' @ [CHR 0x5C, CHR 0x5C] @ ''x[0-9a-f]{2}'') ''gi'',
       sig_severity = Medium,
       sig_description = ''File contains obfuscated JavaScript''\<rparr>,
      \<lparr>sig_name = ''Suspicious Registry Access'',
       sig_pattern =
         RegExp (''HKEY_(LOCAL_MACHINE|CURRENT_USER)'' @ [CHR 0x5C, CHR 0x5C] @ ''Software''
                 @ [CHR 0x5C, CHR 0x5C] @ ''Microsoft'' @ [CHR 0x5C, CHR 0x5C] @ ''Windows''
                 @ [CHR 0x5C, CHR 0x5C] @ ''CurrentVersion'' @ [CHR 0x5C, CHR 0x5C] @ ''Run'') ''gi'',
       sig_severity = High,
       sig_description = ''File contains registry autostart entries''\<rparr>]"

definition regexp_toString :: "RegExp \<Rightarrow> string" where
  "regexp_toString r = ''/'' @ source r @ ''/'' @ flags r"

definition signature_threat :: "js_runtime \<Rightarrow> string \<Rightarrow> SecuritySignature \<Rightarrow> SecurityThreat list" where
  "signature_threat rt text signature =
     (if regex_test rt (sig_pattern signature) text
      then [\<lparr>threat_type = SuspiciousContent, threat_name = sig_name signature,
             severity = sig_severity signature, description = sig_description signature,
             threat_signature = Some (regexp_toString (sig_pattern signature)),
             threat_offset = None\<rparr>]
      else [])"

definition scanCustomSignatures :: "js_runtime \<Rightarrow> SecurityScanConfig \<Rightarrow> File option \<Rightarrow> js_error + SecurityThreat list" where
  "scanCustomSignatures rt cfg fo =
     (case fo of
        None \<Rightarrow> Inr []
      | Some file \<Rightarrow>
          (let text = decode_text rt (file_bytes file);
               allSignatures = initializeDefaultSignatures @
                                 (case customSignatures cfg of None \<Rightarrow> [] | Some cs \<Rightarrow> cs)
           in Inr (concat (map (signature_threat rt text) allSignatures))))"

text \<open>
  The reply of the virus-scanning endpoint: an element of \<open>result.threats\<close> that is
  \<open>null\<close> ends the loop with a \<open>TypeError\<close>, which \<open>scanForViruses\<close> catches, and the
  threats pushed before it stay. A name or description that is missing or empty is
  replaced by the default text.
\<close>

fun reported_threats :: "(string \<times> string) option list \<Rightarrow> SecurityThreat list" where
  "reported_threats [] = []"
| "reported_threats (None # rest) = []"
| "reported_threats (Some (name, descr) # rest) =
     threat Virus (if name = [] then ''Unknown Virus'' else name) Critical
       (if descr = [] then ''Virus detected by scanner'' else descr)
     # reported_threats rest"

definition scanForViruses :: "js_runtime \<Rightarrow> SecurityScanConfig \<Rightarrow> File option \<Rightarrow> js_error + SecurityThreat list" where
  "scanForViruses rt cfg fo =
     (case virusScannerEndpoint cfg of
        None \<Rightarrow> Inr []
      | Some endpoint \<Rightarrow>
          if endpoint = [] then Inr []
          else (case fetch_scan rt endpoint fo of
                  FetchFailed \<Rightarrow> Inr []
                | NotOk statusText \<Rightarrow> Inr []
                | JsonFailed \<Rightarrow> Inr []
                | Body clean reported \<Rightarrow>
                    (if \<not> clean
                     then (case reported of
                             NoThreats \<Rightarrow> Inr []
                           | NotIterable \<Rightarrow> Inr []
                           | ThreatItems items \<Rightarrow> Inr (reported_threats items))
                     else Inr [])))"

definition suspiciousCombinations :: "(string \<times> string) list" where
  "suspiciousCombinations =
     [(''txt'', ''application/octet-stream''),
      (''jpg'', ''text/html''),
      (''png'', ''text/javascript''),
      (''pdf'', ''text/html'')]"

text \<open>\<open>analyzeFileStructure\<close> has no \<open>try\<close>: reading \<open>file.size\<close> of \<open>null\<close> throws.\<close>

definition analyzeFileStructure :: "File option \<Rightarrow> js_error + SecurityThreat list" where
  "analyzeFileStructure fo =
     (case fo of
        None \<Rightarrow> Inl TypeError
      | Some file \<Rightarrow>
          (let extension = toLowerCase (last (split_on (CHR ''.'') (file_name file)));
               mimeType = file_type file
           in Inr ((if file_size file = 0
                    then [threat SuspiciousContent ''Empty File'' Low
                            ''File is empty which may be suspicious'']
                    else []) @
                   concat (map (\<lambda>combo.
                                  if extension = fst combo \<and> mimeType = snd combo
                                  then [threat SuspiciousContent ''MIME Type Mismatch'' Medium
                                          (''File extension '' @ extension
                                             @ '' doesn't match MIME type '' @ mimeType)]
                                  else [])
                            suspiciousCombinations))))"

subsection \<open>Double arithmetic for the confidence\<close>

fun bit_length :: "nat \<Rightarrow> nat" where
  "bit_length n = (if n = 0 then 0 else Suc (bit_length (n div 2)))"

declare bit_length.simps [simp del]

text \<open>
  A double is kept as an integer mantissa and a binary exponent, with the value
  \<open>mantissa * 2^exponent\<close>. \<open>round_to_double\<close> rounds such a number to 53 significant
  bits, to the nearest and on a tie to the even mantissa, as IEEE 754 does for the result of
  each operation (exponents stay far from the ends of the range here).
\<close>

datatype double = Double (mantissa: int) (exponent: int)

definition double_value :: "double \<Rightarrow> rat" where
  "double_value d =
     (if exponent d \<ge> 0 then of_int (mantissa d * 2 ^ nat (exponent d))
      else of_int (mantissa d) / of_int (2 ^ nat (- exponent d)))"

definition round_to_double :: "int \<Rightarrow> int \<Rightarrow> double" where
  "round_to_double m e =
     (let a = nat \<bar>m\<bar>; len = bit_length a
      in if len \<le> 53 then Double m e
         else (let s = len - 53;
                   q = a div 2 ^ s;
                   r = a mod 2 ^ s;
                   half = 2 ^ (s - 1);
                   rounded = (if r > half \<or> (r = half \<and> odd q) then q + 1 else q)
               in Double (sgn m * int rounded) (e + int s)))"

definition js_times :: "double \<Rightarrow> double \<Rightarrow> double" where
  "js_times x y = round_to_double (mantissa x * mantissa y) (exponent x + exponent y)"

definition js_minus :: "double \<Rightarrow> double \<Rightarrow> double" where
  "js_minus x y =
     (let e = min (exponent x) (exponent y)
      in round_to_double (mantissa x * 2 ^ nat (exponent x - e)
                            - mantissa y * 2 ^ nat (exponent y - e)) e)"

definition Math_max :: "double \<Rightarrow> double \<Rightarrow> double" where
  "Math_max x y = (if double_value x < double_value y then y else x)"

definition double_of_nat :: "nat \<Rightarrow> double" where
  "double_of_nat n = Double (int n) 0"

text \<open>
  The literal \<open>0.1\<close>: the double nearest to one tenth, \<open>7205759403792794 * 2^-56\<close>,
  written with an odd mantissa.
\<close>

definition tenth :: double where
  "tenth = Double 3602879701896397 (- 55)"

text \<open>\<open>Math.max(0, 1 - threats.length * 0.1)\<close>, for \<open>n\<close> threats.\<close>

definition js_confidence :: "nat \<Rightarrow> rat" where
  "js_confidence n =
     double_value (Math_max (double_of_nat 0)
                     (js_minus (double_of_nat 1) (js_times (double_of_nat n) tenth)))"

subsection \<open>scanFile\<close>

definition and_then :: "js_error + 'a \<Rightarrow> ('a \<Rightarrow> js_error + 'b) \<Rightarrow> js_error + 'b" where
  "and_then m f = (case m of Inl e \<Rightarrow> Inl e | Inr x \<Rightarrow> f x)"

definition scan_result :: "js_runtime \<Rightarrow> SecurityThreat list \<Rightarrow> SecurityScanResult" where
  "scan_result rt ts =
     (let criticalThreats = filter (\<lambda>t. severity t = Critical) ts;
          highThreats = filter (\<lambda>t. severity t = High) ts;
          clean = (length criticalThreats = 0 \<and> length highThreats = 0)
      in \<lparr>isClean = clean,
          threats = ts,
          scanTime = int (now_end rt) - int (now_start rt),
          scanner = ''SecureDrop Security Engine v1.0'',
          confidence = js_confidence (length ts),
          quarantined = (\<not> clean)\<rparr>)"

definition scan_error_result :: "js_runtime \<Rightarrow> SecurityScanResult" where
  "scan_error_result rt =
     \<lparr>isClean = False,
      threats = [threat SuspiciousContent ''Scan Error'' Medium
                   ''Could not complete security scan''],
      scanTime = int (now_end rt) - int (now_start rt),
      scanner = ''SecureDrop Security Engine v1.0'',
      confidence = 0,
      quarantined = True\<rparr>"

text \<open>The body of the \<open>try\<close> block of \<open>scanFile\<close>: the six steps, then the verdict.\<close>

definition scanFile_try :: "js_runtime \<Rightarrow> SecurityScanConfig \<Rightarrow> File option \<Rightarrow> js_error + SecurityScanResult" where
  "scanFile_try rt cfg fo =
     and_then (validateMimeAndMagicBytes rt fo) (\<lambda>mimeThreats.
     and_then (if enableInjectionDetection cfg then detectInjectionPatterns rt cfg fo
               else Inr []) (\<lambda>injectionThreats.
     and_then (if enableYaraScanning cfg \<and> yaraRules cfg \<noteq> None
               then scanWithYaraRules cfg fo else Inr []) (\<lambda>yaraThreats.
     and_then (scanCustomSignatures rt cfg fo) (\<lambda>customThreats.
     and_then (if enableVirusScanning cfg then scanForViruses rt cfg fo
               else Inr []) (\<lambda>virusThreats.
     and_then (analyzeFileStructure fo) (\<lambda>structuralThreats.
       Inr (scan_result rt
              (mimeThreats @ injectionThreats @ yaraThreats @ customThreats @ virusThreats
                 @ structuralThreats))))))))"

definition scanFile :: "js_runtime \<Rightarrow> SecurityScanConfig \<Rightarrow> File option \<Rightarrow> js_error + SecurityScanResult" where
  "scanFile rt cfg fo =
     (case scanFile_try rt cfg fo of
        Inr result \<Rightarrow> Inr result
      | Inl error \<Rightarrow> Inr (scan_error_result rt))"

definition SECURITY_CONFIGS_STRICT :: SecurityScanConfig where
  "SECURITY_CONFIGS_STRICT =
     \<lparr>enableVirusScanning = True, enableInjectionDetection = True,
      enableYaraScanning = True, enableSandboxing = False,
      virusScannerEndpoint = None,
      yaraRules = Some [''malware.yar'', ''suspicious.yar''],
      customSignatures = None, suspiciousPatterns = None\<rparr>"

definition SECURITY_CONFIGS_MODERATE :: SecurityScanConfig where
  "SECURITY_CONFIGS_MODERATE =
     \<lparr>enableVirusScanning = True, enableInjectionDetection = True,
      enableYaraScanning = False, enableSandboxing = False,
      virusScannerEndpoint = None, yaraRules = None,
      customSignatures = None, suspiciousPatterns = None\<rparr>"

definition SECURITY_CONFIGS_BASIC :: SecurityScanConfig where
  "SECURITY_CONFIGS_BASIC =
     \<lparr>enableVirusScanning = False, enableInjectionDetection = True,
      enableYaraScanning = False, enableSandboxing = False,
      virusScannerEndpoint = None, yaraRules = None,
      customSignatures = None, suspiciousPatterns = None\<rparr>"

section \<open>Upload pipeline\<close>

text \<open>
  \<open>SecureDropAPI.uploadFile\<close> calls its collaborators in a fixed order. What they
  return is given by \<open>backend\<close> (the signed-in user, the storage and the database of the
  Supabase client, the clock and the random source); what the pipeline does to them is
  recorded as a list of events. A step of the pipeline takes the events so far and returns
  its outcome with the events extended. \<open>AuditLogger.log\<close> catches its own failures, so
  it only adds an event. A lifecycle hook is a function that returns or throws.
\<close>

datatype event =
    HookCalled string
  | ScannerRun string
  | AuditLogged string
  | StorageUploaded string
  | RecordInserted string
  | ThumbnailsGenerated string
  | WatermarkApplied string

record UploadMetadata =
  um_name :: string
  um_size :: nat
  um_type :: string
  um_hash :: string
  um_uploadedAt :: nat
  um_userId :: string
  um_fingerprint :: string
  um_ipAddress :: string
  um_userAgent :: string

record BackendUploadOptions =
  bucketName :: string
  expiryHours :: nat
  requireScan :: bool
  generateThumbnails :: bool
  watermarkEnabled :: bool

record NewFileRecord =
  nr_user_id :: string
  nr_filename :: string
  nr_original_filename :: string
  nr_file_size :: nat
  nr_mime_type :: string
  nr_file_path :: string
  nr_file_hash :: string
  nr_status :: string
  nr_expires_at :: nat
  nr_scan_result :: "SecurityScanResult option"

record FileRecord =
  rec_id :: string
  rec_filename :: string
  rec_originalFilename :: string
  rec_fileSize :: nat
  rec_mimeType :: string
  rec_filePath :: string
  rec_fileHash :: string

record FileUploadResult =
  res_id :: string
  res_filename :: string
  res_originalFilename :: string
  res_fileSize :: nat
  res_mimeType :: string
  res_filePath :: string
  res_fileHash :: string
  res_status :: string
  res_expiresAt :: nat
  res_securityScan :: "SecurityScanResult option"

record LifecycleHooks =
  beforeUpload :: "(File \<Rightarrow> UploadMetadata \<Rightarrow> js_error + bool) option"
  afterValidation :: "(File \<Rightarrow> ValidationResult \<Rightarrow> js_error + unit) option"
  beforeScan :: "(File \<Rightarrow> js_error + bool) option"
  afterScan :: "(File \<Rightarrow> SecurityScanResult \<Rightarrow> js_error + unit) option"
  beforeStore :: "(File \<Rightarrow> UploadMetadata \<Rightarrow> js_error + UploadMetadata) option"
  afterStore :: "(FileUploadResult \<Rightarrow> js_error + unit) option"
  onError :: "(js_error \<Rightarrow> string \<Rightarrow> js_error + unit) option"

record backend =
  auth_user :: "string option"
  user_ip :: string
  user_agent :: string
  device_fingerprint :: string
  storage_upload :: "File \<Rightarrow> string \<Rightarrow> string + string"
  insert_file_upload :: "NewFileRecord \<Rightarrow> string + FileRecord"
  date_now :: nat
  random_path_id :: string
  random_name_id :: string

type_synonym 'a step = "event list \<Rightarrow> (js_error + 'a) \<times> event list"

definition done_with :: "'a \<Rightarrow> 'a step" where
  "done_with x = (\<lambda>events. (Inr x, events))"

definition throw :: "js_error \<Rightarrow> 'a step" where
  "throw e = (\<lambda>events. (Inl e, events))"

definition await :: "'a step \<Rightarrow> ('a \<Rightarrow> 'b step) \<Rightarrow> 'b step" where
  "await m f =
     (\<lambda>events. case m events of
                  (Inl e, events') \<Rightarrow> (Inl e, events')
                | (Inr x, events') \<Rightarrow> f x events')"

definition record_event :: "event \<Rightarrow> unit step" where
  "record_event ev = (\<lambda>events. (Inr (), events @ [ev]))"

definition outcome :: "js_error + 'a \<Rightarrow> 'a step" where
  "outcome r = (\<lambda>events. (r, events))"

definition call_hook :: "string \<Rightarrow> js_error + 'a \<Rightarrow> 'a step" where
  "call_hook name r = await (record_event (HookCalled name)) (\<lambda>u. outcome r)"

definition audit_log :: "string \<Rightarrow> unit step" where
  "audit_log action = record_event (AuditLogged action)"

definition generateFileMetadata :: "backend \<Rightarrow> js_runtime \<Rightarrow> File \<Rightarrow> js_error + UploadMetadata" where
  "generateFileMetadata be rt file =
     (case auth_user be of
        None \<Rightarrow> Inl (Error ''User not authenticated'')
      | Some user_id \<Rightarrow>
          and_then (digest_hex rt (file_bytes file)) (\<lambda>hash.
            Inr \<lparr>um_name = file_name file, um_size = file_size file, um_type = file_type file,
                 um_hash = hash, um_uploadedAt = date_now be, um_userId = user_id,
                 um_fingerprint = device_fingerprint be, um_ipAddress = user_ip be,
                 um_userAgent = user_agent be\<rparr>))"

definition pop_extension :: "string \<Rightarrow> string" where
  "pop_extension filename = last (split_on (CHR ''.'') filename)"

definition generateFilePath :: "backend \<Rightarrow> string \<Rightarrow> string \<Rightarrow> string" where
  "generateFilePath be userId filename =
     userId @ ''/'' @ string_of_nat (date_now be) @ ''-'' @ random_path_id be @ ''.''
       @ pop_extension filename"

text \<open>
  \<open>originalFilename.replace(/\.[^/.]+$/, "")\<close> drops a last extension: a dot followed, up to
  the end of the name, by at least one character, none of them a dot or a slash.
\<close>

definition baseName :: "string \<Rightarrow> string" where
  "baseName originalFilename =
     (let ext = pop_extension originalFilename
      in if length (split_on (CHR ''.'') originalFilename) > 1 \<and> ext \<noteq> [] \<and>
            CHR ''/'' \<notin> set ext
         then take (length originalFilename - length ext - 1) originalFilename
         else originalFilename)"

definition generateUniqueFilename :: "backend \<Rightarrow> string \<Rightarrow> string" where
  "generateUniqueFilename be originalFilename =
     baseName originalFilename @ ''-'' @ string_of_nat (date_now be) @ ''-''
       @ random_name_id be @ ''.'' @ pop_extension originalFilename"

definition isImageFile :: "File \<Rightarrow> bool" where
  "isImageFile file = startsWith (file_type file) ''image/''"

definition storage_backend_upload :: "backend \<Rightarrow> File \<Rightarrow> string \<Rightarrow> string step" where
  "storage_backend_upload be file path =
     (case storage_upload be file path of
        Inl message \<Rightarrow> throw (Error (''Upload failed: '' @ message))
      | Inr stored \<Rightarrow> await (record_event (StorageUploaded stored)) (\<lambda>u. done_with stored))"

definition createFileRecord :: "backend \<Rightarrow> NewFileRecord \<Rightarrow> FileRecord step" where
  "createFileRecord be data =
     (case insert_file_upload be data of
        Inl message \<Rightarrow> throw (Error (''Failed to create file record: '' @ message))
      | Inr row \<Rightarrow> await (record_event (RecordInserted (rec_id row))) (\<lambda>u. done_with row))"

text \<open>Step 5 of \<open>uploadFile\<close>: the security scan, with the result or \<open>null\<close>.\<close>

definition security_scanning ::
  "js_runtime \<Rightarrow> LifecycleHooks \<Rightarrow> SecurityScanConfig \<Rightarrow> File \<Rightarrow> BackendUploadOptions
     \<Rightarrow> SecurityScanResult option step" where
  "security_scanning rt hooks scanConfig file options =
     (if requireScan options
      then (case beforeScan hooks of
              None \<Rightarrow> done_with None
            | Some hook \<Rightarrow>
                await (call_hook ''beforeScan'' (hook file)) (\<lambda>shouldScan.
                  if shouldScan
                  then await (record_event (ScannerRun (file_name file))) (\<lambda>u.
                       await (outcome (scanFile rt scanConfig (Some file))) (\<lambda>scanResult.
                       await (case afterScan hooks of
                                None \<Rightarrow> done_with ()
                              | Some after \<Rightarrow> call_hook ''afterScan'' (after file scanResult))
                         (\<lambda>u.
                       if \<not> isClean scanResult
                       then await (audit_log ''security_threat_detected'') (\<lambda>u.
                              throw (Error ''Security scan failed: File contains threats''))
                       else done_with (Some scanResult))))
                  else done_with None))
      else done_with None)"

definition uploadFile_try ::
  "backend \<Rightarrow> js_runtime \<Rightarrow> LifecycleHooks \<Rightarrow> SecurityScanConfig \<Rightarrow> File
     \<Rightarrow> BackendUploadOptions \<Rightarrow> FileUploadResult step" where
  "uploadFile_try be rt hooks scanConfig file options =
     await (outcome (generateFileMetadata be rt file)) (\<lambda>metadata.
     await (case beforeUpload hooks of
              None \<Rightarrow> done_with ()
            | Some hook \<Rightarrow>
                await (call_hook ''beforeUpload'' (hook file metadata)) (\<lambda>shouldContinue.
                  if \<not> shouldContinue
                  then throw (Error ''Upload rejected by beforeUpload hook'')
                  else done_with ())) (\<lambda>u.
     await (done_with (validateFile rt DEFAULT_CONFIGS_GENERAL (Some file))) (\<lambda>validationResult.
     await (if \<not> isValid validationResult
            then await (audit_log ''file_upload_rejected'') (\<lambda>u.
                   throw (Error (''File validation failed: ''
                                   @ join '', '' (errors validationResult))))
            else done_with ()) (\<lambda>u.
     await (case afterValidation hooks of
              None \<Rightarrow> done_with ()
            | Some hook \<Rightarrow> call_hook ''afterValidation'' (hook file validationResult)) (\<lambda>u.
     await (security_scanning rt hooks scanConfig file options) (\<lambda>scanResult.
     await (case beforeStore hooks of
              None \<Rightarrow> done_with metadata
            | Some hook \<Rightarrow> call_hook ''beforeStore'' (hook file metadata)) (\<lambda>metadata.
     await (storage_backend_upload be file
              (generateFilePath be (um_userId metadata) (file_name file))) (\<lambda>storedPath.
     await (createFileRecord be
              \<lparr>nr_user_id = um_userId metadata,
               nr_filename = generateUniqueFilename be (file_name file),
               nr_original_filename = file_name file,
               nr_file_size = file_size file,
               nr_mime_type = file_type file,
               nr_file_path = storedPath,
               nr_file_hash = um_hash metadata,
               nr_status = ''scanning'',
               nr_expires_at = date_now be + expiryHours options * 60 * 60 * 1000,
               nr_scan_result = scanResult\<rparr>) (\<lambda>fileRecord.
     await (if generateThumbnails options \<and> isImageFile file
            then record_event (ThumbnailsGenerated (rec_id fileRecord))
            else done_with ()) (\<lambda>u.
     await (if watermarkEnabled options
            then record_event (WatermarkApplied (rec_id fileRecord))
            else done_with ()) (\<lambda>u.
     await (done_with
              \<lparr>res_id = rec_id fileRecord,
               res_filename = rec_filename fileRecord,
               res_originalFilename = rec_originalFilename fileRecord,
               res_fileSize = rec_fileSize fileRecord,
               res_mimeType = rec_mimeType fileRecord,
               res_filePath = rec_filePath fileRecord,
               res_fileHash = rec_fileHash fileRecord,
               res_status = (case scanResult of
                               Some result \<Rightarrow> if isClean result then ''approved'' else ''rejected''
                             | None \<Rightarrow> ''pending''),
               res_expiresAt = date_now be + expiryHours options * 60 * 60 * 1000,
               res_securityScan = scanResult\<rparr>) (\<lambda>uploadResult.
     await (case afterStore hooks of
              None \<Rightarrow> done_with ()
            | Some hook \<Rightarrow> call_hook ''afterStore'' (hook uploadResult)) (\<lambda>u.
     await (audit_log ''file_upload_success'') (\<lambda>u.
     done_with uploadResult))))))))))))))"

definition uploadFile ::
  "backend \<Rightarrow> js_runtime \<Rightarrow> LifecycleHooks \<Rightarrow> SecurityScanConfig \<Rightarrow> File
     \<Rightarrow> BackendUploadOptions \<Rightarrow> FileUploadResult step" where
  "uploadFile be rt hooks scanConfig file options =
     (\<lambda>events.
        case uploadFile_try be rt hooks scanConfig file options events of
          (Inr uploadResult, events') \<Rightarrow> (Inr uploadResult, events')
        | (Inl error, events') \<Rightarrow>
            await (case onError hooks of
                     None \<Rightarrow> done_with ()
                   | Some hook \<Rightarrow> call_hook ''onError'' (hook error ''upload_pipeline''))
              (\<lambda>u. await (audit_log ''file_upload_error'') (\<lambda>u. throw error)) events')"

definition default_options :: BackendUploadOptions where
  "default_options =
     \<lparr>bucketName = ''files'', expiryHours = 72, requireScan = True,
      generateThumbnails = False, watermarkEnabled = False\<rparr>"

definition no_hooks :: LifecycleHooks where
  "no_hooks =
     \<lparr>beforeUpload = None, afterValidation = None, beforeScan = None, afterScan = None,
      beforeStore = None, afterStore = None, onError = None\<rparr>"

section \<open>Sample inputs and the properties as the specification words them\<close>

text \<open>
  A runtime for evaluating the functions on concrete inputs: its regular-expression
  engine matches nothing, hashing is unavailable and the network is down.
\<close>

definition quiet_runtime :: js_runtime where
  "quiet_runtime =
     \<lparr>regex_test = (\<lambda>r s. False), regex_match_count = (\<lambda>r s. 0),
      decode_text = map (\<lambda>b. char_of (unat b)),
      digest_hex = (\<lambda>bs. Inl TypeError),
      fetch_scan = (\<lambda>url fo. FetchFailed),
      now_start = 0, now_end = 0\<rparr>"

definition no_high_or_critical :: "SecurityThreat list \<Rightarrow> bool" where
  "no_high_or_critical ts = list_all (\<lambda>t. severity t \<noteq> High \<and> severity t \<noteq> Critical) ts"

definition aggregation_invariant :: "SecurityScanResult \<Rightarrow> bool" where
  "aggregation_invariant r =
     ((isClean r = no_high_or_critical (threats r)) \<and>
      (quarantined r = (\<not> isClean r)) \<and>
      confidence r = max 0 (1 - of_nat (length (threats r)) / 10))"

definition sample_text_file :: File where
  "sample_text_file =
     \<lparr>file_name = ''notes.txt'', file_type = ''text/plain'', file_bytes = [0x68, 0x69],
      file_lastModified = 1\<rparr>"

definition hashing_runtime :: js_runtime where
  "hashing_runtime = quiet_runtime\<lparr>digest_hex := (\<lambda>bytes. Inr ''8f434346648f6b96'')\<rparr>"

definition sample_backend :: backend where
  "sample_backend =
     \<lparr>auth_user = Some ''user-1'', user_ip = ''203.0.113.7'', user_agent = ''agent'',
      device_fingerprint = ''fp'',
      storage_upload = (\<lambda>file path. Inr path),
      insert_file_upload =
        (\<lambda>data. Inr \<lparr>rec_id = ''id-1'', rec_filename = nr_filename data,
                       rec_originalFilename = nr_original_filename data,
                       rec_fileSize = nr_file_size data, rec_mimeType = nr_mime_type data,
                       rec_filePath = nr_file_path data, rec_fileHash = nr_file_hash data\<rparr>),
      date_now = 1000, random_path_id = ''r1'', random_name_id = ''r2''\<rparr>"

definition eicar_report :: "(string \<times> string) option" where
  "eicar_report = Some (''EICAR-Test-File'', ''Test signature'')"

definition reporting_runtime :: js_runtime where
  "reporting_runtime =
     quiet_runtime\<lparr>fetch_scan :=
       (\<lambda>url fo. Body False
          (ThreatItems [eicar_report, eicar_report, eicar_report, eicar_report, eicar_report,
                        eicar_report, eicar_report]))\<rparr>"

definition endpoint_config :: SecurityScanConfig where
  "endpoint_config =
     SECURITY_CONFIGS_MODERATE\<lparr>virusScannerEndpoint := Some ''https://scanner.example/scan''\<rparr>"

definition seven_threats :: "SecurityThreat list" where
  "seven_threats =
     reported_threats [eicar_report, eicar_report, eicar_report, eicar_report, eicar_report,
                       eicar_report, eicar_report]"


definition nameless_file :: File where
  "nameless_file =
     \<lparr>file_name = [], file_type = ''text/plain'', file_bytes = [0x61, 0x62, 0x63],
      file_lastModified = 1\<rparr>"

definition images_only_config :: FileValidationConfig where
  "images_only_config =
     \<lparr>maxFileSize = 2, allowedMimeTypes = [''image/*''], allowedExtensions = [''png''],
      maxFiles = 1, requireHash = True\<rparr>"

definition mislabelled_file :: File where
  "mislabelled_file =
     \<lparr>file_name = ''notes.txt'', file_type = ''application/pdf'',
      file_bytes = [0x61, 0x62, 0x63], file_lastModified = 1\<rparr>"

definition scenario_b_file :: File where
  "scenario_b_file =
     \<lparr>file_name = ''photo.jpg'', file_type = ''image/jpeg'', file_bytes = [0x4D, 0x5A],
      file_lastModified = 1\<rparr>"

definition sample_jpeg_file :: File where
  "sample_jpeg_file =
     \<lparr>file_name = ''scan.txt'', file_type = ''image/jpeg'',
      file_bytes = [0xFF, 0xD8, 0xFF, 0xE0], file_lastModified = 1\<rparr>"

text \<open>
  What each check of \<open>validateFile\<close> tests, one predicate per check, and the errors a
  validation that runs every check reports: the combined list \<open>check_errors\<close>.
\<close>

definition size_violated :: "FileValidationConfig \<Rightarrow> File \<Rightarrow> bool" where
  "size_violated cfg file = (file_size file > maxFileSize cfg)"

definition type_violated :: "FileValidationConfig \<Rightarrow> File \<Rightarrow> bool" where
  "type_violated cfg file =
     (allowedMimeTypes cfg \<noteq> [] \<and>
      \<not> list_ex (isMatchingMimeType (file_type file)) (allowedMimeTypes cfg))"

definition extension_violated :: "FileValidationConfig \<Rightarrow> File \<Rightarrow> bool" where
  "extension_violated cfg file =
     (allowedExtensions cfg \<noteq> [] \<and>
      toLowerCase (getFileExtension (file_name file)) \<notin> set (allowedExtensions cfg))"

definition signature_failure :: "File \<Rightarrow> string option" where
  "signature_failure file =
     (case validateMagicBytes file of
        Inl e \<Rightarrow> None
      | Inr (ok, err) \<Rightarrow>
          if ok then None
          else (case err of
                  None \<Rightarrow> Some ''File signature validation failed''
                | Some e \<Rightarrow> Some (if e = [] then ''File signature validation failed'' else e)))"

definition check_errors :: "FileValidationConfig \<Rightarrow> File \<Rightarrow> string list" where
  "check_errors cfg file =
     (if size_violated cfg file then [size_error cfg file] else []) @
     (if type_violated cfg file then [type_error cfg file] else []) @
     (if extension_violated cfg file then [extension_error cfg file] else []) @
     (case signature_failure file of None \<Rightarrow> [] | Some e \<Rightarrow> [e])"

section \<open>The confidence as a double\<close>

lemmas dbl_eval = js_confidence_def Math_max_def js_minus_def js_times_def double_of_nat_def
  tenth_def round_to_double_def double_value_def bit_length.simps Let_def

lemma bit_length_upper: "n < 2 ^ bit_length n"
proof (induction n rule: bit_length.induct)
  case (1 n)
  show ?case
  proof (cases "n = 0")
    case True
    then show ?thesis by simp
  next
    case False
    with 1 have "n div 2 < 2 ^ bit_length (n div 2)"
      by simp
    then have "n < 2 * 2 ^ bit_length (n div 2)"
      by linarith
    with False show ?thesis
      by (subst bit_length.simps) simp
  qed
qed

lemma bit_length_lower: "n \<noteq> 0 \<Longrightarrow> 2 ^ (bit_length n - 1) \<le> n"
proof (induction n rule: bit_length.induct)
  case (1 n)
  show ?case
  proof (cases "n div 2 = 0")
    case True
    with 1(2) have "n = 1"
      by linarith
    then show ?thesis
      by (simp add: bit_length.simps)
  next
    case False
    with 1 have ih: "2 ^ (bit_length (n div 2) - 1) \<le> n div 2"
      by simp
    from False have pos: "bit_length (n div 2) \<noteq> 0"
      by (subst bit_length.simps) simp
    have "bit_length n = Suc (bit_length (n div 2))"
      using 1(2) by (subst bit_length.simps) simp
    then have "(2::nat) ^ (bit_length n - 1) = 2 * 2 ^ (bit_length (n div 2) - 1)"
      using pos by (cases "bit_length (n div 2)") simp_all
    also have "\<dots> \<le> 2 * (n div 2)"
      using ih by simp
    also have "\<dots> \<le> n"
      by simp
    finally show ?thesis .
  qed
qed

lemma double_value_nonpos: "mantissa d \<le> 0 \<Longrightarrow> double_value d \<le> 0"
  by (simp add: double_value_def mult_nonpos_nonneg divide_nonpos_pos)

lemma round_to_double_nonpos: "m \<le> 0 \<Longrightarrow> double_value (round_to_double m e) \<le> 0"
proof (rule double_value_nonpos)
  assume "m \<le> 0"
  then have "sgn m \<le> 0"
    by (simp add: sgn_if)
  then have "\<And>k::nat. sgn m * int k \<le> 0"
    by (simp add: mult_nonpos_nonneg)
  with \<open>m \<le> 0\<close> show "mantissa (round_to_double m e) \<le> 0"
    by (simp add: round_to_double_def Let_def)
qed

lemma round_to_double_at_least_one:
  assumes "(2::nat) ^ 55 \<le> M"
  shows "1 \<le> double_value (round_to_double (int M) (- 55))"
proof -
  define s where "s = bit_length M - 53"
  define q where "q = M div 2 ^ s"
  define rounded where
    "rounded = (if M mod 2 ^ s > 2 ^ (s - 1) \<or> (M mod 2 ^ s = 2 ^ (s - 1) \<and> odd q)
                then q + 1 else q)"
  have M: "M \<noteq> 0"
    using assms by auto
  have "(2::nat) ^ 55 < 2 ^ bit_length M"
    using assms bit_length_upper [of M] by linarith
  then have len: "55 < bit_length M"
    by (simp only: power_strict_increasing_iff [of "2::nat"])
  then have big: "\<not> bit_length M \<le> 53"
    by simp
  have "sgn (int M) = 1"
    using M by simp
  then have r: "round_to_double (int M) (- 55) = Double (int rounded) (int s - 55)"
    using big by (simp add: round_to_double_def Let_def rounded_def q_def s_def)
  have ge: "q \<le> rounded"
    by (simp add: rounded_def)
  show ?thesis
  proof (cases "55 \<le> s")
    case True
    have "(2::nat) ^ s \<le> 2 ^ (bit_length M - 1)"
      unfolding s_def by (rule power_increasing) simp_all
    also have "\<dots> \<le> M"
      by (rule bit_length_lower [OF M])
    finally have "1 \<le> q"
      by (simp add: q_def Suc_le_eq div_greater_zero_iff)
    with ge have one: "1 \<le> int rounded"
      by linarith
    have "(1::int) \<le> 2 ^ nat (int s - 55)"
      by simp
    with one have "(1::int) * 1 \<le> int rounded * 2 ^ nat (int s - 55)"
      by (intro mult_mono) simp_all
    then have "(1::rat) \<le> of_int (int rounded * 2 ^ nat (int s - 55))"
      by (simp only: mult_1 of_int_1_le_iff)
    with True show ?thesis
      unfolding r by (simp add: double_value_def)
  next
    case False
    then have s: "s < 55"
      by simp
    have "(2::nat) ^ 55 div 2 ^ s \<le> q"
      unfolding q_def using assms by (rule div_le_mono)
    moreover have "(2::nat) ^ 55 div 2 ^ s = 2 ^ (55 - s)"
      using s by (simp add: power_diff)
    ultimately have "(2::nat) ^ (55 - s) \<le> rounded"
      using ge by linarith
    then have "int (2 ^ (55 - s)) \<le> int rounded"
      by (simp only: of_nat_le_iff)
    then have "(2::int) ^ (55 - s) \<le> int rounded"
      by simp
    then have "(of_int (2 ^ (55 - s)) :: rat) \<le> of_int (int rounded)"
      by (simp only: of_int_le_iff)
    then have "(1::rat) \<le> of_int (int rounded) / of_int (2 ^ (55 - s))"
      by (simp add: le_divide_eq)
    moreover have "nat (- (int s - 55)) = 55 - s"
      using s by simp
    ultimately show ?thesis
      unfolding r using s by (simp add: double_value_def)
  qed
qed

lemma one_minus_at_least_one:
  assumes "1 \<le> double_value y"
  shows "double_value (js_minus (double_of_nat 1) y) \<le> 0"
proof (cases "0 \<le> exponent y")
  case True
  with assms have "(1::rat) \<le> of_int (mantissa y * 2 ^ nat (exponent y))"
    by (simp add: double_value_def)
  then have "1 \<le> mantissa y * 2 ^ nat (exponent y)"
    by (simp only: of_int_1_le_iff)
  then have "1 - mantissa y * 2 ^ nat (exponent y) \<le> 0"
    by simp
  then have "double_value (round_to_double (1 - mantissa y * 2 ^ nat (exponent y)) 0) \<le> 0"
    by (rule round_to_double_nonpos)
  with True show ?thesis
    by (simp add: js_minus_def double_of_nat_def Let_def min_def)
next
  case False
  then have neg: "exponent y < 0"
    by simp
  with assms have "(1::rat) \<le> of_int (mantissa y) / of_int (2 ^ nat (- exponent y))"
    by (simp add: double_value_def)
  then have "(of_int (2 ^ nat (- exponent y)) :: rat) \<le> of_int (mantissa y)"
    by (simp add: le_divide_eq)
  then have "2 ^ nat (- exponent y) \<le> mantissa y"
    by (simp only: of_int_le_iff)
  then have "2 ^ nat (- exponent y) - mantissa y \<le> 0"
    by simp
  then have "double_value (round_to_double (2 ^ nat (- exponent y) - mantissa y) (exponent y))
               \<le> 0"
    by (rule round_to_double_nonpos)
  with neg show ?thesis
    by (simp add: js_minus_def double_of_nat_def Let_def min_def)
qed

lemma js_confidence_from_ten:
  assumes "10 \<le> n"
  shows "js_confidence n = 0"
proof -
  have "(2::nat) ^ 55 \<le> 10 * 3602879701896397"
    by simp
  also have "\<dots> \<le> n * 3602879701896397"
    using assms by simp
  finally have "1 \<le> double_value (round_to_double (int (n * 3602879701896397)) (- 55))"
    by (rule round_to_double_at_least_one)
  then have "1 \<le> double_value (js_times (double_of_nat n) tenth)"
    by (simp add: js_times_def double_of_nat_def tenth_def)
  then have "double_value (js_minus (double_of_nat 1) (js_times (double_of_nat n) tenth)) \<le> 0"
    by (rule one_minus_at_least_one)
  then show ?thesis
    by (simp add: js_confidence_def Math_max_def double_of_nat_def double_value_def)
qed

lemma below_ten: "n < 10 \<Longrightarrow> n \<in> {0, 1, 2, 3, 4, 5, 6, 7, 8, 9 :: nat}"
  by auto

lemma js_confidence_below_ten:
  "js_confidence 0 = 1"
  "js_confidence 1 = 8106479329266893 / 9007199254740992"
  "js_confidence 2 = 3602879701896397 / 4503599627370496"
  "js_confidence 3 = 3152519739159347 / 4503599627370496"
  "js_confidence 4 = 5404319552844595 / 9007199254740992"
  "js_confidence 5 = 1 / 2"
  "js_confidence 6 = 900719925474099 / 2251799813685248"
  "js_confidence 7 = 2702159776422297 / 9007199254740992"
  "js_confidence 8 = 900719925474099 / 4503599627370496"
  "js_confidence 9 = 900719925474099 / 9007199254740992"
  by (simp_all add: dbl_eval)

lemma js_confidence_Suc_0: "js_confidence (Suc 0) = 8106479329266893 / 9007199254740992"
  using js_confidence_below_ten(2) by simp

lemma js_confidence_error:
  "\<bar>js_confidence n - max 0 (1 - of_nat n / 10)\<bar> < 1 / 2 ^ 53"
proof (cases "n < 10")
  case True
  from below_ten [OF this] show ?thesis
    by (auto simp: js_confidence_below_ten js_confidence_Suc_0)
next
  case False
  then have "10 \<le> n"
    by simp
  then have "(1::rat) \<le> of_nat n / 10"
    by simp
  then have "max 0 (1 - of_nat n / 10) = (0::rat)"
    by simp
  with \<open>10 \<le> n\<close> show ?thesis
    by (simp add: js_confidence_from_ten)
qed

lemma tenth_nearest:
  "\<bar>double_value tenth - 1 / 10\<bar> < 1 / 2 ^ 57 \<and>
   double_value tenth = of_int (2 * mantissa tenth) / 2 ^ 56 \<and>
   2 ^ 52 \<le> 2 * mantissa tenth \<and> 2 * mantissa tenth < 2 ^ 53"
  by (simp add: tenth_def double_value_def)

section \<open>Leading bytes\<close>

lemma every_from_iff:
  "every_from i sig bytes = (take (length sig) (drop i bytes) = sig)"
proof (induction sig arbitrary: i)
  case Nil
  then show ?case by simp
next
  case (Cons b bs)
  show ?case
  proof (cases "i < length bytes")
    case True
    then have d: "drop i bytes = bytes ! i # drop (Suc i) bytes"
      by (simp add: Cons_nth_drop_Suc)
    show ?thesis
      using True Cons.IH [of "Suc i"] by (auto simp: d)
  next
    case False
    then show ?thesis by simp
  qed
qed

lemma take_eq_prefix: "(take (length sig) bytes = sig) = prefix sig bytes"
  by (metis append_eq_conv_conj prefix_def take_is_prefix)

lemma every_from_prefix: "every_from 0 sig bytes = prefix sig bytes"
  by (simp add: every_from_iff take_eq_prefix)

lemma every_from_take:
  assumes "length sig \<le> n"
  shows "every_from 0 sig (take n bytes) = prefix sig bytes"
proof -
  have "take (length sig) (take n bytes) = take (length sig) bytes"
    using assms by (simp add: min_def)
  then show ?thesis
    by (simp add: every_from_iff take_eq_prefix)
qed

section \<open>Properties of the scanner\<close>

lemma isClean_scan_result: "isClean (scan_result rt ts) = no_high_or_critical ts"
  by (induction ts) (auto simp: scan_result_def no_high_or_critical_def Let_def)

lemma threats_scan_result: "threats (scan_result rt ts) = ts"
  by (simp add: scan_result_def Let_def)

lemma quarantined_scan_result:
  "quarantined (scan_result rt ts) = (\<not> isClean (scan_result rt ts))"
  by (simp add: scan_result_def Let_def)

lemma confidence_scan_result:
  "confidence (scan_result rt ts) = js_confidence (length ts)"
  by (simp add: scan_result_def Let_def)

lemma validateMimeAndMagicBytes_total:
  "\<exists>ts. validateMimeAndMagicBytes rt (Some file) = Inr ts"
  by (simp add: validateMimeAndMagicBytes_def Let_def)

lemma detectInjectionPatterns_total: "\<exists>ts. detectInjectionPatterns rt cfg fo = Inr ts"
  by (cases fo) (simp_all add: detectInjectionPatterns_def Let_def)

lemma scanWithYaraRules_total: "\<exists>ts. scanWithYaraRules cfg fo = Inr ts"
  by (cases fo) (simp_all add: scanWithYaraRules_def Let_def split: option.splits)

lemma scanCustomSignatures_total: "\<exists>ts. scanCustomSignatures rt cfg fo = Inr ts"
  by (cases fo) (simp_all add: scanCustomSignatures_def Let_def)

lemma scanForViruses_total: "\<exists>ts. scanForViruses rt cfg fo = Inr ts"
  by (simp add: scanForViruses_def split: option.splits virus_response.splits json_threats.splits)

lemma analyzeFileStructure_total: "\<exists>ts. analyzeFileStructure (Some file) = Inr ts"
  by (simp add: analyzeFileStructure_def Let_def)

lemma scanFile_try_Some:
  "\<exists>m i y c v s.
     validateMimeAndMagicBytes rt (Some file) = Inr m \<and>
     (if enableInjectionDetection cfg
      then detectInjectionPatterns rt cfg (Some file) else Inr []) = Inr i \<and>
     (if enableYaraScanning cfg \<and> yaraRules cfg \<noteq> None
      then scanWithYaraRules cfg (Some file) else Inr []) = Inr y \<and>
     scanCustomSignatures rt cfg (Some file) = Inr c \<and>
     (if enableVirusScanning cfg then scanForViruses rt cfg (Some file) else Inr []) = Inr v \<and>
     analyzeFileStructure (Some file) = Inr s \<and>
     scanFile_try rt cfg (Some file) = Inr (scan_result rt (m @ i @ y @ c @ v @ s))"
proof -
  obtain m where m: "validateMimeAndMagicBytes rt (Some file) = Inr m"
    using validateMimeAndMagicBytes_total by blast
  obtain i where i: "(if enableInjectionDetection cfg
      then detectInjectionPatterns rt cfg (Some file) else Inr []) = Inr i"
    using detectInjectionPatterns_total [of rt cfg "Some file"]
    by (cases "enableInjectionDetection cfg") auto
  obtain y where y: "(if enableYaraScanning cfg \<and> yaraRules cfg \<noteq> None
      then scanWithYaraRules cfg (Some file) else Inr []) = Inr y"
    using scanWithYaraRules_total [of cfg "Some file"]
    by (cases "enableYaraScanning cfg \<and> yaraRules cfg \<noteq> None") auto
  obtain c where c: "scanCustomSignatures rt cfg (Some file) = Inr c"
    using scanCustomSignatures_total by blast
  obtain v where v: "(if enableVirusScanning cfg
      then scanForViruses rt cfg (Some file) else Inr []) = Inr v"
    using scanForViruses_total [of rt cfg "Some file"] by (cases "enableVirusScanning cfg") auto
  obtain s where s: "analyzeFileStructure (Some file) = Inr s"
    using analyzeFileStructure_total by blast
  have "scanFile_try rt cfg (Some file) = Inr (scan_result rt (m @ i @ y @ c @ v @ s))"
    unfolding scanFile_try_def m i y c v s by (simp add: and_then_def)
  with m i y c v s show ?thesis by blast
qed

lemma scanFile_try_None: "scanFile_try rt cfg None = Inl TypeError"
proof -
  obtain v where v: "(if enableVirusScanning cfg
      then scanForViruses rt cfg None else Inr []) = Inr v"
    using scanForViruses_total [of rt cfg None] by (cases "enableVirusScanning cfg") auto
  have y: "(if enableYaraScanning cfg \<and> yaraRules cfg \<noteq> None
      then scanWithYaraRules cfg None else Inr []) = Inr []"
    by (simp add: scanWithYaraRules_def split: option.splits)
  have i: "(if enableInjectionDetection cfg
      then detectInjectionPatterns rt cfg None else Inr []) = Inr []"
    by (simp add: detectInjectionPatterns_def)
  show ?thesis
    unfolding scanFile_try_def v y i
    by (simp add: and_then_def validateMimeAndMagicBytes_def scanCustomSignatures_def
        analyzeFileStructure_def)
qed

lemma scanFile_Some:
  "\<exists>m i y c v s.
     validateMimeAndMagicBytes rt (Some file) = Inr m \<and>
     (if enableInjectionDetection cfg
      then detectInjectionPatterns rt cfg (Some file) else Inr []) = Inr i \<and>
     (if enableYaraScanning cfg \<and> yaraRules cfg \<noteq> None
      then scanWithYaraRules cfg (Some file) else Inr []) = Inr y \<and>
     scanCustomSignatures rt cfg (Some file) = Inr c \<and>
     (if enableVirusScanning cfg then scanForViruses rt cfg (Some file) else Inr []) = Inr v \<and>
     analyzeFileStructure (Some file) = Inr s \<and>
     scanFile rt cfg (Some file) = Inr (scan_result rt (m @ i @ y @ c @ v @ s))"
proof -
  from scanFile_try_Some [of rt "file" cfg] obtain m i y c v s where
    d: "validateMimeAndMagicBytes rt (Some file) = Inr m"
       "(if enableInjectionDetection cfg
         then detectInjectionPatterns rt cfg (Some file) else Inr []) = Inr i"
       "(if enableYaraScanning cfg \<and> yaraRules cfg \<noteq> None
         then scanWithYaraRules cfg (Some file) else Inr []) = Inr y"
       "scanCustomSignatures rt cfg (Some file) = Inr c"
       "(if enableVirusScanning cfg then scanForViruses rt cfg (Some file) else Inr []) = Inr v"
       "analyzeFileStructure (Some file) = Inr s" and
    t: "scanFile_try rt cfg (Some file) = Inr (scan_result rt (m @ i @ y @ c @ v @ s))"
    by blast
  have "scanFile rt cfg (Some file) = Inr (scan_result rt (m @ i @ y @ c @ v @ s))"
    by (simp add: scanFile_def t)
  with d show ?thesis by blast
qed

lemma scanFile_None: "scanFile rt cfg None = Inr (scan_error_result rt)"
  by (simp add: scanFile_def scanFile_try_None)

lemma not_invariant_error: "\<not> aggregation_invariant (scan_error_result rt)"
  by (simp add: aggregation_invariant_def scan_error_result_def no_high_or_critical_def threat_def)

lemma in_concat_map: "x \<in> set xs \<Longrightarrow> y \<in> set (f x) \<Longrightarrow> y \<in> set (concat (map f xs))"
  by auto

lemma not_clean_if_member:
  assumes "t \<in> set ts" and "severity t = High \<or> severity t = Critical"
  shows "\<not> isClean (scan_result rt ts)"
  using assms by (auto simp: isClean_scan_result no_high_or_critical_def list_all_iff)

lemma yara_rule_threat:
  assumes "enableYaraScanning cfg" and "yaraRules cfg = Some rules" and "rule \<in> set rules"
    and "string_includes rule ''malware''" and "file_bytes file \<noteq> []"
  shows "\<exists>r. scanFile rt cfg (Some file) = Inr r \<and>
           threat YaraMatch (''YARA Rule: '' @ rule) High (''File matches YARA rule: '' @ rule)
             \<in> set (threats r) \<and>
           \<not> isClean r"
proof -
  let ?t = "threat YaraMatch (''YARA Rule: '' @ rule) High (''File matches YARA rule: '' @ rule)"
  from scanFile_Some [of rt "file" cfg] obtain m i y c v s where
    y: "(if enableYaraScanning cfg \<and> yaraRules cfg \<noteq> None
         then scanWithYaraRules cfg (Some file) else Inr []) = Inr y" and
    r: "scanFile rt cfg (Some file) = Inr (scan_result rt (m @ i @ y @ c @ v @ s))"
    by blast
  from y assms(1,2) have yy: "y = concat (map (yara_threat (file_bytes file)) rules)"
    by (simp add: scanWithYaraRules_def)
  have one: "?t \<in> set (yara_threat (file_bytes file) rule)"
    using assms(4,5) by (simp add: yara_threat_def matchesYaraRule_def)
  have "?t \<in> set y"
    unfolding yy
    by (rule in_concat_map [where f = "yara_threat (file_bytes file)", OF assms(3) one])
  then have mem: "?t \<in> set (m @ i @ y @ c @ v @ s)"
    by simp
  have "severity ?t = High"
    by (simp add: threat_def)
  with mem have "\<not> isClean (scan_result rt (m @ i @ y @ c @ v @ s))"
    using not_clean_if_member by blast
  with r mem show ?thesis
    by (simp add: threats_scan_result)
qed

text \<open>
  C10. With \<open>enableYaraScanning\<close> set and a rule in \<open>yaraRules\<close> that contains the text
  \<open>malware\<close>, scanning a non-empty file reports a high-severity \<open>yara_match\<close> threat
  for that rule and the result is not clean. \<open>SECURITY_CONFIGS.STRICT\<close> has the rule
  \<open>malware.yar\<close>, so under it every non-empty file is reported unclean.
\<close>

theorem strict_config_flags_every_nonempty_file:
  "(enableYaraScanning cfg \<and> yaraRules cfg = Some rules \<and> rule \<in> set rules \<and>
    string_includes rule ''malware'' \<and> file_bytes file \<noteq> [] \<longrightarrow>
      (\<exists>r. scanFile rt cfg (Some file) = Inr r \<and>
           threat YaraMatch (''YARA Rule: '' @ rule) High (''File matches YARA rule: '' @ rule)
             \<in> set (threats r) \<and>
           \<not> isClean r)) \<and>
   (file_bytes file \<noteq> [] \<longrightarrow>
      (\<exists>r. scanFile rt SECURITY_CONFIGS_STRICT (Some file) = Inr r \<and>
           threat YaraMatch ''YARA Rule: malware.yar'' High ''File matches YARA rule: malware.yar''
             \<in> set (threats r) \<and>
           \<not> isClean r))"
proof (intro conjI impI)
  assume "enableYaraScanning cfg \<and> yaraRules cfg = Some rules \<and> rule \<in> set rules \<and>
    string_includes rule ''malware'' \<and> file_bytes file \<noteq> []"
  then show "\<exists>r. scanFile rt cfg (Some file) = Inr r \<and>
           threat YaraMatch (''YARA Rule: '' @ rule) High (''File matches YARA rule: '' @ rule)
             \<in> set (threats r) \<and>
           \<not> isClean r"
    using yara_rule_threat by blast
next
  assume nonempty: "file_bytes file \<noteq> []"
  have "string_includes ''malware.yar'' ''malware''"
    by simp
  from yara_rule_threat [of SECURITY_CONFIGS_STRICT "[''malware.yar'', ''suspicious.yar'']"
      "''malware.yar''" "file" rt, OF _ _ _ this nonempty]
  show "\<exists>r. scanFile rt SECURITY_CONFIGS_STRICT (Some file) = Inr r \<and>
           threat YaraMatch ''YARA Rule: malware.yar'' High ''File matches YARA rule: malware.yar''
             \<in> set (threats r) \<and>
           \<not> isClean r"
    by (simp add: SECURITY_CONFIGS_STRICT_def)
qed

theorem strict_config_flags_every_nonempty_file_witness:
  "enableYaraScanning SECURITY_CONFIGS_STRICT \<and>
   yaraRules SECURITY_CONFIGS_STRICT = Some [''malware.yar'', ''suspicious.yar''] \<and>
   ''malware.yar'' \<in> set [''malware.yar'', ''suspicious.yar''] \<and>
   string_includes ''malware.yar'' ''malware'' \<and>
   file_bytes sample_text_file \<noteq> [] \<and>
   (\<exists>r. scanFile quiet_runtime SECURITY_CONFIGS_STRICT (Some sample_text_file) = Inr r \<and>
        threat YaraMatch ''YARA Rule: malware.yar'' High ''File matches YARA rule: malware.yar''
          \<in> set (threats r) \<and>
        \<not> isClean r)"
  using strict_config_flags_every_nonempty_file
    [of SECURITY_CONFIGS_STRICT "[''malware.yar'', ''suspicious.yar'']" "''malware.yar''"
        sample_text_file quiet_runtime]
  by (simp add: SECURITY_CONFIGS_STRICT_def sample_text_file_def)

lemma seven_threats_scan:
  "scanFile_try reporting_runtime endpoint_config (Some sample_text_file)
     = Inr (scan_result reporting_runtime seven_threats)"
  by (simp add: scanFile_try_def and_then_def validateMimeAndMagicBytes_def
      detectInjectionPatterns_def scanCustomSignatures_def scanForViruses_def
      analyzeFileStructure_def endpoint_config_def SECURITY_CONFIGS_MODERATE_def
      reporting_runtime_def quiet_runtime_def sample_text_file_def seven_threats_def
      executableSignatures_def disguise_threat_def matchesSignature_def scriptPatterns_def
      injectionPatterns_def injection_threat_def initializeDefaultSignatures_def
      signature_threat_def suspiciousCombinations_def file_size_def toLowerCase_def
      toLowerCase_char_def Let_def)

lemma seven_threats_length: "length seven_threats = 7"
  by (simp add: seven_threats_def eicar_report_def)


lemma disguised_pe:
  assumes "prefix [0x4D, 0x5A] (file_bytes file)"
  shows "\<exists>m. validateMimeAndMagicBytes rt (Some file) = Inr m \<and>
           threat SuspiciousContent ''Windows PE Executable'' Critical
             (''File contains Windows PE Executable signature but is disguised as ''
                @ file_type file) \<in> set m"
proof -
  have "matchesSignature (take 64 (file_bytes file)) [0x4D, 0x5A]"
    using assms every_from_take [of "[0x4D, 0x5A]" 64 "file_bytes file"]
    by (auto simp: matchesSignature_def dest: prefix_length_le)
  then show ?thesis
    by (simp add: validateMimeAndMagicBytes_def Let_def executableSignatures_def
        disguise_threat_def)
qed

text \<open>
  C2, as stated, fails twice. The result of the \<open>catch\<close> branch of \<open>scanFile\<close> is not clean
  although its only threat has severity medium, and its confidence is 0 with one threat; a
  \<open>null\<close> file reaches that branch, because \<open>analyzeFileStructure\<close> reads \<open>file.size\<close>
  outside any \<open>try\<close>. And on the normal path the confidence is a double: for a file in
  which the virus scanner reports seven threats it is \<open>0.29999999999999993\<close>, not
  \<open>1 - 0.1 * 7\<close>.
\<close>

theorem scan_error_breaks_aggregation:
  "scanFile quiet_runtime SECURITY_CONFIGS_BASIC None = Inr (scan_error_result quiet_runtime) \<and>
   \<not> aggregation_invariant (scan_error_result quiet_runtime) \<and>
   scanFile reporting_runtime endpoint_config (Some sample_text_file)
     = Inr (scan_result reporting_runtime seven_threats) \<and>
   length (threats (scan_result reporting_runtime seven_threats)) = 7 \<and>
   confidence (scan_result reporting_runtime seven_threats)
     = 2702159776422297 / 9007199254740992 \<and>
   \<not> aggregation_invariant (scan_result reporting_runtime seven_threats)"
proof -
  have seven: "scanFile reporting_runtime endpoint_config (Some sample_text_file)
     = Inr (scan_result reporting_runtime seven_threats)"
    by (simp add: scanFile_def seven_threats_scan)
  have conf: "confidence (scan_result reporting_runtime seven_threats)
     = 2702159776422297 / 9007199254740992"
    by (simp add: confidence_scan_result seven_threats_length js_confidence_below_ten)
  have len: "length (threats (scan_result reporting_runtime seven_threats)) = 7"
    by (simp add: threats_scan_result seven_threats_length)
  have "\<not> aggregation_invariant (scan_result reporting_runtime seven_threats)"
    by (simp add: aggregation_invariant_def conf len)
  with seven conf len show ?thesis
    by (simp add: scanFile_None not_invariant_error)
qed

text \<open>
  C2, amended. Every result that \<open>scanFile\<close> returns from the body of its \<open>try\<close> block
  has \<open>isClean\<close> exactly when no threat has severity high or critical and
  \<open>quarantined = !isClean\<close>; its confidence is the double that
  \<open>Math.max(0, 1 - threats.length * 0.1)\<close> evaluates to, which is within \<open>2^-53\<close> of
  \<open>max(0, 1 - 0.1 * threatCount)\<close>. The result produced when a detector throws also has
  \<open>quarantined = !isClean\<close>, but it is fixed: not clean, confidence 0, and a single threat of
  severity medium.
\<close>

theorem scan_aggregation:
  "(scanFile_try rt cfg fo = Inr r \<longrightarrow>
      scanFile rt cfg fo = Inr r \<and>
      isClean r = no_high_or_critical (threats r) \<and>
      quarantined r = (\<not> isClean r) \<and>
      confidence r = js_confidence (length (threats r)) \<and>
      \<bar>confidence r - max 0 (1 - of_nat (length (threats r)) / 10)\<bar> < 1 / 2 ^ 53) \<and>
   (scanFile_try rt cfg fo = Inl e \<longrightarrow>
      (\<exists>r'. scanFile rt cfg fo = Inr r' \<and> quarantined r' = (\<not> isClean r') \<and>
            \<not> isClean r' \<and> confidence r' = 0 \<and> map severity (threats r') = [Medium]))"
proof (rule conjI; rule impI)
  assume ok: "scanFile_try rt cfg fo = Inr r"
  then obtain f where fo: "fo = Some f"
    by (cases fo) (simp_all add: scanFile_try_None)
  from scanFile_try_Some [of rt f cfg] ok fo
  obtain ts where "r = scan_result rt ts"
    by auto
  then show "scanFile rt cfg fo = Inr r \<and>
      isClean r = no_high_or_critical (threats r) \<and>
      quarantined r = (\<not> isClean r) \<and>
      confidence r = js_confidence (length (threats r)) \<and>
      \<bar>confidence r - max 0 (1 - of_nat (length (threats r)) / 10)\<bar> < 1 / 2 ^ 53"
    using ok js_confidence_error [of "length ts"]
    by (simp add: scanFile_def isClean_scan_result threats_scan_result quarantined_scan_result
        confidence_scan_result)
next
  assume "scanFile_try rt cfg fo = Inl e"
  then have "scanFile rt cfg fo = Inr (scan_error_result rt)"
    by (simp add: scanFile_def)
  then show "\<exists>r'. scanFile rt cfg fo = Inr r' \<and> quarantined r' = (\<not> isClean r') \<and>
            \<not> isClean r' \<and> confidence r' = 0 \<and> map severity (threats r') = [Medium]"
    by (simp add: scan_error_result_def threat_def)
qed

theorem scan_aggregation_witness:
  "scanFile_try reporting_runtime endpoint_config (Some sample_text_file)
     = Inr (scan_result reporting_runtime seven_threats) \<and>
   scanFile reporting_runtime endpoint_config (Some sample_text_file)
     = Inr (scan_result reporting_runtime seven_threats) \<and>
   length (threats (scan_result reporting_runtime seven_threats)) = 7 \<and>
   \<not> isClean (scan_result reporting_runtime seven_threats) \<and>
   quarantined (scan_result reporting_runtime seven_threats) \<and>
   confidence (scan_result reporting_runtime seven_threats)
     = 2702159776422297 / 9007199254740992 \<and>
   \<bar>confidence (scan_result reporting_runtime seven_threats) - max 0 (1 - 7 / 10)\<bar>
     < 1 / 2 ^ 53 \<and>
   scanFile_try quiet_runtime SECURITY_CONFIGS_BASIC None = Inl TypeError \<and>
   (\<exists>r'. scanFile quiet_runtime SECURITY_CONFIGS_BASIC None = Inr r' \<and>
         quarantined r' = (\<not> isClean r') \<and> \<not> isClean r' \<and> confidence r' = 0 \<and>
         map severity (threats r') = [Medium])"
proof -
  have n: "scanFile_try quiet_runtime SECURITY_CONFIGS_BASIC None = Inl TypeError"
    by (rule scanFile_try_None)
  have sev: "\<not> no_high_or_critical seven_threats"
    by (simp add: no_high_or_critical_def seven_threats_def eicar_report_def threat_def)
  show ?thesis
    using scan_aggregation [of reporting_runtime endpoint_config "Some sample_text_file"
        "scan_result reporting_runtime seven_threats"]
      scan_aggregation [of quiet_runtime SECURITY_CONFIGS_BASIC None _ TypeError]
      seven_threats_scan n sev
    by (simp add: threats_scan_result seven_threats_length js_confidence_below_ten)
qed



section \<open>Properties of the validator\<close>

lemma validateFile_errors:
  assumes "file_name file \<noteq> []"
  shows "errors (validateFile rt cfg (Some file)) = check_errors cfg file"
  using assms
  by (simp add: validateFile_def check_errors_def size_violated_def type_violated_def
      extension_violated_def signature_failure_def Let_def
      split: sum.splits prod.splits option.splits)

lemma validateFile_isValid:
  "isValid (validateFile rt cfg fo) = (errors (validateFile rt cfg fo) = [])"
  by (simp add: validateFile_def Let_def split: option.splits)

lemma signatures_entry:
  assumes "map_of signatures t = Some sigs" and "sigs \<noteq> []"
  shows "t \<noteq> [] \<and> t \<noteq> ''application/octet-stream'' \<and> (\<forall>s\<in>set sigs. length s \<le> 16)"
  using assms by (auto simp: signatures_def split: if_splits)

lemma validateMagicBytes_entry:
  assumes "map_of signatures (file_type file) = Some sigs" and "sigs \<noteq> []"
  shows "validateMagicBytes file =
           Inr (list_ex (\<lambda>s. prefix s (file_bytes file)) sigs,
                if list_ex (\<lambda>s. prefix s (file_bytes file)) sigs then None
                else Some (''File signature does not match expected type '' @ file_type file))"
proof -
  from signatures_entry [OF assms] have t: "file_type file \<noteq> []"
    "file_type file \<noteq> ''application/octet-stream''" and len: "\<forall>s\<in>set sigs. length s \<le> 16"
    by blast+
  have ex: "list_ex (\<lambda>s. every_from 0 s (take 16 (file_bytes file))) sigs =
            list_ex (\<lambda>s. prefix s (file_bytes file)) sigs"
    using len by (simp add: list_ex_iff every_from_take)
  show ?thesis
    using t assms
    by (simp add: validateMagicBytes_def validateMagicBytes_try_def signatures_get_def Let_def ex)
qed

lemma signature_failure_entry:
  assumes "map_of signatures (file_type file) = Some sigs" and "sigs \<noteq> []"
  shows "signature_failure file =
           (if list_ex (\<lambda>s. prefix s (file_bytes file)) sigs then None
            else Some (''File signature does not match expected type '' @ file_type file))"
  by (simp add: signature_failure_def validateMagicBytes_entry [OF assms])

lemma signature_failure_reported:
  assumes "file_name file \<noteq> []" and "signature_failure file = Some e"
  shows "e \<in> set (errors (validateFile rt cfg (Some file))) \<and>
         \<not> isValid (validateFile rt cfg (Some file))"
proof -
  have "e \<in> set (check_errors cfg file)"
    using assms(2) by (simp add: check_errors_def)
  then show ?thesis
    by (auto simp: validateFile_isValid validateFile_errors [OF assms(1)])
qed

lemma validateFile_nameless:
  "file_name file = [] \<Longrightarrow> errors (validateFile rt cfg (Some file)) = [''File name is required'']"
  by (simp add: validateFile_def)

text \<open>
  C6. For a file whose declared MIME type has a non-empty entry in the signature table:
  if no candidate signature is a prefix of the bytes, \<open>validateFile\<close> is invalid (and, for
  a named file, reports the signature mismatch); if some candidate is a prefix, none of the
  three signature errors is reported, whatever the file name.
\<close>

theorem signature_check_decides:
  assumes "map_of signatures (file_type file) = Some sigs" and "sigs \<noteq> []"
  shows "(\<not> list_ex (\<lambda>s. prefix s (file_bytes file)) sigs \<longrightarrow>
            \<not> isValid (validateFile rt cfg (Some file)) \<and>
            (file_name file \<noteq> [] \<longrightarrow>
               ''File signature does not match expected type '' @ file_type file
                 \<in> set (errors (validateFile rt cfg (Some file))))) \<and>
         (list_ex (\<lambda>s. prefix s (file_bytes file)) sigs \<longrightarrow>
            ''File signature does not match expected type '' @ file_type file
              \<notin> set (errors (validateFile rt cfg (Some file))) \<and>
            ''Could not read file signature'' \<notin> set (errors (validateFile rt cfg (Some file))) \<and>
            ''File signature validation failed''
              \<notin> set (errors (validateFile rt cfg (Some file))))"
proof (cases "file_name file = []")
  case True
  then show ?thesis
    by (simp add: validateFile_isValid validateFile_nameless)
next
  case False
  show ?thesis
    by (simp add: validateFile_isValid validateFile_errors [OF False] check_errors_def
        signature_failure_entry [OF assms] size_error_def type_error_def extension_error_def)
qed

theorem signature_check_decides_witness:
  "map_of signatures (file_type scenario_b_file) = Some [[0xFF, 0xD8, 0xFF]] \<and>
   [[0xFF, 0xD8, 0xFF :: byte]] \<noteq> [] \<and>
   \<not> list_ex (\<lambda>s. prefix s (file_bytes scenario_b_file)) [[0xFF, 0xD8, 0xFF]] \<and>
   file_name scenario_b_file \<noteq> [] \<and>
   \<not> isValid (validateFile quiet_runtime DEFAULT_CONFIGS_GENERAL (Some scenario_b_file)) \<and>
   ''File signature does not match expected type image/jpeg''
     \<in> set (errors (validateFile quiet_runtime DEFAULT_CONFIGS_GENERAL (Some scenario_b_file))) \<and>
   map_of signatures (file_type sample_jpeg_file) = Some [[0xFF, 0xD8, 0xFF]] \<and>
   list_ex (\<lambda>s. prefix s (file_bytes sample_jpeg_file)) [[0xFF, 0xD8, 0xFF]] \<and>
   ''File signature does not match expected type image/jpeg''
     \<notin> set (errors (validateFile quiet_runtime DEFAULT_CONFIGS_GENERAL (Some sample_jpeg_file)))"
  using signature_check_decides
          [of scenario_b_file "[[0xFF, 0xD8, 0xFF]]" quiet_runtime DEFAULT_CONFIGS_GENERAL]
        signature_check_decides
          [of sample_jpeg_file "[[0xFF, 0xD8, 0xFF]]" quiet_runtime DEFAULT_CONFIGS_GENERAL]
  by (simp add: scenario_b_file_def sample_jpeg_file_def signatures_def)

section \<open>Scenario B\<close>

text \<open>
  C4, as stated, fails: for bytes \<open>4D 5A\<close> declared as \<open>image/jpeg\<close> the validator's
  signature check does not pass. It requires the JPEG signature \<open>FF D8 FF\<close> and reports
  a mismatch.
\<close>

theorem scenario_b_signature_check_fails:
  "validateMagicBytes scenario_b_file =
     Inr (False, Some ''File signature does not match expected type image/jpeg'')"
  by (simp add: validateMagicBytes_def validateMagicBytes_try_def signatures_get_def
      signatures_def scenario_b_file_def Let_def)

text \<open>
  C4, amended. For a file named \<open>photo.jpg\<close>, declared \<open>image/jpeg\<close>, whose bytes start
  with \<open>4D 5A\<close>: the validator's signature check fails with a hard error and the file is
  invalid; the scanner reports the critical threat \<open>Windows PE Executable\<close> and the scan
  result is not clean.
\<close>

theorem scenario_b:
  assumes "file_name file = ''photo.jpg''" and "file_type file = ''image/jpeg''"
    and "prefix [0x4D, 0x5A] (file_bytes file)"
  shows "validateMagicBytes file =
           Inr (False, Some ''File signature does not match expected type image/jpeg'') \<and>
         ''File signature does not match expected type image/jpeg''
           \<in> set (errors (validateFile rt vcfg (Some file))) \<and>
         \<not> isValid (validateFile rt vcfg (Some file)) \<and>
         (\<exists>r. scanFile rt cfg (Some file) = Inr r \<and>
              threat SuspiciousContent ''Windows PE Executable'' Critical
                ''File contains Windows PE Executable signature but is disguised as image/jpeg''
                \<in> set (threats r) \<and>
              \<not> isClean r)"
proof -
  have entry: "map_of signatures (file_type file) = Some [[0xFF, 0xD8, 0xFF]]"
    by (simp add: assms(2) signatures_def)
  obtain rest where bytes: "file_bytes file = 0x4D # 0x5A # rest"
    using assms(3) by (auto simp: prefix_def)
  have no: "\<not> list_ex (\<lambda>s. prefix s (file_bytes file)) [[0xFF, 0xD8, 0xFF]]"
    by (simp add: bytes)
  have magic: "validateMagicBytes file =
           Inr (False, Some ''File signature does not match expected type image/jpeg'')"
    using validateMagicBytes_entry [OF entry] no by (simp add: assms(2))
  have name: "file_name file \<noteq> []"
    by (simp add: assms(1))
  have "signature_failure file = Some ''File signature does not match expected type image/jpeg''"
    using signature_failure_entry [OF entry] no by (simp add: assms(2))
  from signature_failure_reported [OF name this, of rt vcfg]
  have v: "''File signature does not match expected type image/jpeg''
           \<in> set (errors (validateFile rt vcfg (Some file)))"
      "\<not> isValid (validateFile rt vcfg (Some file))"
    by simp_all
  let ?t = "threat SuspiciousContent ''Windows PE Executable'' Critical
                ''File contains Windows PE Executable signature but is disguised as image/jpeg''"
  from disguised_pe [OF assms(3), of rt] obtain m0 where
    m0: "validateMimeAndMagicBytes rt (Some file) = Inr m0" "?t \<in> set m0"
    by (auto simp: assms(2))
  from scanFile_Some [of rt "file" cfg] obtain m i y c v s where
    m: "validateMimeAndMagicBytes rt (Some file) = Inr m" and
    r: "scanFile rt cfg (Some file) = Inr (scan_result rt (m @ i @ y @ c @ v @ s))"
    by blast
  from m m0 have mem: "?t \<in> set (m @ i @ y @ c @ v @ s)"
    by simp
  have "severity ?t = Critical"
    by (simp add: threat_def)
  with mem have "\<not> isClean (scan_result rt (m @ i @ y @ c @ v @ s))"
    using not_clean_if_member by blast
  with r mem have "\<exists>r. scanFile rt cfg (Some file) = Inr r \<and> ?t \<in> set (threats r) \<and> \<not> isClean r"
    by (simp add: threats_scan_result)
  with magic v show ?thesis
    by blast
qed

theorem scenario_b_witness:
  "file_name scenario_b_file = ''photo.jpg'' \<and> file_type scenario_b_file = ''image/jpeg'' \<and>
   prefix [0x4D, 0x5A] (file_bytes scenario_b_file) \<and>
   \<not> isValid (validateFile quiet_runtime DEFAULT_CONFIGS_GENERAL (Some scenario_b_file)) \<and>
   (\<exists>r. scanFile quiet_runtime SECURITY_CONFIGS_MODERATE (Some scenario_b_file) = Inr r \<and>
        threat SuspiciousContent ''Windows PE Executable'' Critical
          ''File contains Windows PE Executable signature but is disguised as image/jpeg''
          \<in> set (threats r) \<and>
        \<not> isClean r)"
  using scenario_b [of scenario_b_file quiet_runtime DEFAULT_CONFIGS_GENERAL
      SECURITY_CONFIGS_MODERATE]
  by (simp add: scenario_b_file_def)

section \<open>Every check of validateFile\<close>

lemma startsWith_prefix: "startsWith s p = prefix p s"
  by (induction s p rule: startsWith.induct) auto

lemma signature_failure_cases:
  assumes "signature_failure file = Some e"
  shows "e = ''File signature does not match expected type '' @ file_type file \<or>
         e = ''Could not read file signature''"
  using assms
  by (auto simp: signature_failure_def validateMagicBytes_def validateMagicBytes_try_def Let_def
      split: sum.splits prod.splits if_splits option.splits property.splits)

text \<open>
  C5, as stated, fails: \<open>validateFile\<close> returns at once for a file without a name, so a
  nameless file that is too large, of a type and of an extension that are not allowed gets
  the single error \<open>File name is required\<close>.
\<close>

theorem nameless_file_skips_checks:
  "size_violated images_only_config nameless_file \<and>
   type_violated images_only_config nameless_file \<and>
   extension_violated images_only_config nameless_file \<and>
   errors (validateFile quiet_runtime images_only_config (Some nameless_file))
     = [''File name is required'']"
  by (simp add: size_violated_def type_violated_def extension_violated_def images_only_config_def
      nameless_file_def file_size_def isMatchingMimeType_def endsWith_def validateFile_def
      getFileExtension_def toLowerCase_def)

text \<open>
  C5, amended. For every file with a non-empty name \<open>validateFile\<close> runs all of its checks
  without short-circuiting: the errors are, in order, one entry for each violated check
  (size, MIME allow-list, extension allow-list, signature), a hash that cannot be computed
  adds a warning, and the number of errors is the number of violated checks. A missing
  file or an empty file name ends the validation at once with that single error.
\<close>

theorem validateFile_runs_every_check:
  "(file_name file \<noteq> [] \<longrightarrow>
      errors (validateFile rt cfg (Some file)) = check_errors cfg file \<and>
      (size_violated cfg file \<longrightarrow>
         size_error cfg file \<in> set (errors (validateFile rt cfg (Some file)))) \<and>
      (type_violated cfg file \<longrightarrow>
         type_error cfg file \<in> set (errors (validateFile rt cfg (Some file)))) \<and>
      (extension_violated cfg file \<longrightarrow>
         extension_error cfg file \<in> set (errors (validateFile rt cfg (Some file)))) \<and>
      (signature_failure file = Some e \<longrightarrow>
         e \<in> set (errors (validateFile rt cfg (Some file)))) \<and>
      (requireHash cfg \<and> generateFileHash rt file = Inl err \<longrightarrow>
         ''Could not generate file hash''
           \<in> set (warnings (validateFile rt cfg (Some file)))) \<and>
      length (errors (validateFile rt cfg (Some file))) =
        (if size_violated cfg file then 1 else 0) + (if type_violated cfg file then 1 else 0) +
        (if extension_violated cfg file then 1 else 0) +
        (if signature_failure file = None then 0 else 1)) \<and>
   (file_name file = [] \<longrightarrow>
      validateFile rt cfg (Some file) =
        \<lparr>isValid = False, errors = [''File name is required''], warnings = [],
         metadata = None\<rparr>) \<and>
   validateFile rt cfg None =
     \<lparr>isValid = False, errors = [''File is required''], warnings = [], metadata = None\<rparr>"
proof (intro conjI)
  show "file_name file \<noteq> [] \<longrightarrow>
      errors (validateFile rt cfg (Some file)) = check_errors cfg file \<and>
      (size_violated cfg file \<longrightarrow>
         size_error cfg file \<in> set (errors (validateFile rt cfg (Some file)))) \<and>
      (type_violated cfg file \<longrightarrow>
         type_error cfg file \<in> set (errors (validateFile rt cfg (Some file)))) \<and>
      (extension_violated cfg file \<longrightarrow>
         extension_error cfg file \<in> set (errors (validateFile rt cfg (Some file)))) \<and>
      (signature_failure file = Some e \<longrightarrow>
         e \<in> set (errors (validateFile rt cfg (Some file)))) \<and>
      (requireHash cfg \<and> generateFileHash rt file = Inl err \<longrightarrow>
         ''Could not generate file hash''
           \<in> set (warnings (validateFile rt cfg (Some file)))) \<and>
      length (errors (validateFile rt cfg (Some file))) =
        (if size_violated cfg file then 1 else 0) + (if type_violated cfg file then 1 else 0) +
        (if extension_violated cfg file then 1 else 0) +
        (if signature_failure file = None then 0 else 1)"
  proof
    assume named: "file_name file \<noteq> []"
    have w: "requireHash cfg \<and> generateFileHash rt file = Inl err \<longrightarrow>
              ''Could not generate file hash''
                \<in> set (warnings (validateFile rt cfg (Some file)))"
      using named by (simp add: validateFile_def Let_def)
    show "errors (validateFile rt cfg (Some file)) = check_errors cfg file \<and>
      (size_violated cfg file \<longrightarrow>
         size_error cfg file \<in> set (errors (validateFile rt cfg (Some file)))) \<and>
      (type_violated cfg file \<longrightarrow>
         type_error cfg file \<in> set (errors (validateFile rt cfg (Some file)))) \<and>
      (extension_violated cfg file \<longrightarrow>
         extension_error cfg file \<in> set (errors (validateFile rt cfg (Some file)))) \<and>
      (signature_failure file = Some e \<longrightarrow>
         e \<in> set (errors (validateFile rt cfg (Some file)))) \<and>
      (requireHash cfg \<and> generateFileHash rt file = Inl err \<longrightarrow>
         ''Could not generate file hash''
           \<in> set (warnings (validateFile rt cfg (Some file)))) \<and>
      length (errors (validateFile rt cfg (Some file))) =
        (if size_violated cfg file then 1 else 0) + (if type_violated cfg file then 1 else 0) +
        (if extension_violated cfg file then 1 else 0) +
        (if signature_failure file = None then 0 else 1)"
      unfolding validateFile_errors [OF named]
      using w by (auto simp: check_errors_def split: option.splits)
  qed
next
  show "file_name file = [] \<longrightarrow>
      validateFile rt cfg (Some file) =
        \<lparr>isValid = False, errors = [''File name is required''], warnings = [],
         metadata = None\<rparr>"
    by (simp add: validateFile_def)
next
  show "validateFile rt cfg None =
     \<lparr>isValid = False, errors = [''File is required''], warnings = [], metadata = None\<rparr>"
    by (simp add: validateFile_def)
qed

theorem validateFile_runs_every_check_witness:
  "file_name mislabelled_file \<noteq> [] \<and>
   size_violated images_only_config mislabelled_file \<and>
   type_violated images_only_config mislabelled_file \<and>
   extension_violated images_only_config mislabelled_file \<and>
   signature_failure mislabelled_file
     = Some ''File signature does not match expected type application/pdf'' \<and>
   requireHash images_only_config \<and>
   generateFileHash quiet_runtime mislabelled_file = Inl TypeError \<and>
   errors (validateFile quiet_runtime images_only_config (Some mislabelled_file)) =
     [''File size 3 B exceeds maximum allowed size 2 B'',
      ''File type application/pdf is not allowed. Allowed types: image/*'',
      ''File extension txt is not allowed. Allowed extensions: png'',
      ''File signature does not match expected type application/pdf''] \<and>
   ''Could not generate file hash''
     \<in> set (warnings (validateFile quiet_runtime images_only_config (Some mislabelled_file))) \<and>
   file_name nameless_file = [] \<and>
   validateFile quiet_runtime images_only_config (Some nameless_file) =
     \<lparr>isValid = False, errors = [''File name is required''], warnings = [],
      metadata = None\<rparr> \<and>
   validateFile quiet_runtime images_only_config None =
     \<lparr>isValid = False, errors = [''File is required''], warnings = [], metadata = None\<rparr>"
proof -
  have named: "file_name mislabelled_file \<noteq> []" and nameless: "file_name nameless_file = []"
    by (simp_all add: mislabelled_file_def nameless_file_def)
  have checks: "check_errors images_only_config mislabelled_file =
     [''File size 3 B exceeds maximum allowed size 2 B'',
      ''File type application/pdf is not allowed. Allowed types: image/*'',
      ''File extension txt is not allowed. Allowed extensions: png'',
      ''File signature does not match expected type application/pdf'']"
    "size_violated images_only_config mislabelled_file"
    "type_violated images_only_config mislabelled_file"
    "extension_violated images_only_config mislabelled_file"
    "signature_failure mislabelled_file
       = Some ''File signature does not match expected type application/pdf''"
    "requireHash images_only_config"
    "generateFileHash quiet_runtime mislabelled_file = Inl TypeError"
    by (simp_all add: check_errors_def size_violated_def type_violated_def
        extension_violated_def signature_failure_def validateMagicBytes_def
        validateMagicBytes_try_def signatures_get_def signatures_def images_only_config_def
        mislabelled_file_def file_size_def isMatchingMimeType_def endsWith_def
        getFileExtension_def toLowerCase_def toLowerCase_char_def size_error_def
        type_error_def extension_error_def formatBytes_def toFixed2_def hundredths_string_def
        sizes_def digit_char_def floor_log1024.simps string_of_nat.simps generateFileHash_def
        quiet_runtime_def Let_def)
  show ?thesis
    using validateFile_runs_every_check
            [of mislabelled_file quiet_runtime images_only_config
                "''File signature does not match expected type application/pdf''" TypeError]
          validateFile_runs_every_check
            [of nameless_file quiet_runtime images_only_config
                "''File signature does not match expected type application/pdf''" TypeError]
          named nameless checks
    by simp
qed

section \<open>Batches\<close>

lemma forEach_result_errors:
  "fst (forEach_result index (zip files (map (validateFile rt cfg) files)) (allErrors, allWarnings))
     = allErrors @
       concat (map (\<lambda>(i, fo). map (\<lambda>error. label_prefix i fo @ error)
                                 (errors (validateFile rt cfg fo)))
                 (enumerate index files))"
proof (induction files arbitrary: index allErrors allWarnings)
  case Nil
  then show ?case by simp
next
  case (Cons fo files)
  show ?case
  proof (cases "isValid (validateFile rt cfg fo)")
    case True
    then have "errors (validateFile rt cfg fo) = []"
      by (simp add: validateFile_isValid)
    with True show ?thesis
      by (simp add: Cons.IH)
  next
    case False
    then show ?thesis
      by (simp add: Cons.IH)
  qed
qed

text \<open>
  C7, as stated, fails: the prefix names the file only when it has a name. For a file with an
  empty name the label is \<open>unknown\<close>, not the (empty) filename.
\<close>

theorem validateFiles_label_when_nameless:
  "errors (validateFile quiet_runtime DEFAULT_CONFIGS_GENERAL (Some nameless_file))
     = [''File name is required''] \<and>
   errors (validateFiles quiet_runtime DEFAULT_CONFIGS_GENERAL [Some nameless_file])
     = [''File 1 (unknown): File name is required''] \<and>
   ''File 1 (unknown): File name is required''
     \<noteq> ''File 1 ('' @ file_name nameless_file @ ''): File name is required''"
  by (simp add: validateFiles_def validateFile_def nameless_file_def DEFAULT_CONFIGS_GENERAL_def
      label_prefix_def file_label_def digit_char_def string_of_nat.simps)

text \<open>
  C7, amended. The errors of \<open>validateFiles\<close> are the too-many-files error, present exactly
  when the list is longer than \<open>config.maxFiles\<close>, followed by the errors of \<open>validateFile\<close>
  for each file in order, each prefixed with \<open>File i (label): \<close> where \<open>i\<close> is the 1-based
  index and the label is the filename, or \<open>unknown\<close> for a file that is absent or has an
  empty name.
\<close>

theorem validateFiles_errors:
  "errors (validateFiles rt cfg files) =
     (if length files > maxFiles cfg then [too_many_error cfg (length files)] else []) @
     concat (map (\<lambda>(i, fo). map (\<lambda>error. ''File '' @ string_of_nat (i + 1) @ '' (''
                                             @ file_label fo @ ''): '' @ error)
                               (errors (validateFile rt cfg fo)))
               (enumerate 0 files)) \<and>
   file_label (Some file) = (if file_name file = [] then ''unknown'' else file_name file) \<and>
   file_label None = ''unknown''"
proof -
  have "errors (validateFiles rt cfg files) =
          fst (forEach_result 0 (zip files (map (validateFile rt cfg) files))
                 (if length files > maxFiles cfg then [too_many_error cfg (length files)] else [],
                  []))"
    by (simp add: validateFiles_def Let_def split: prod.splits)
  then show ?thesis
    by (simp only: forEach_result_errors) (simp add: label_prefix_def file_label_def)
qed

theorem validateFiles_errors_witness:
  "file_name mislabelled_file \<noteq> [] \<and> file_name nameless_file = [] \<and>
   length [Some mislabelled_file, Some nameless_file] > maxFiles images_only_config \<and>
   errors (validateFiles quiet_runtime images_only_config
             [Some mislabelled_file, Some nameless_file]) =
     [''Too many files. Maximum allowed: 1, provided: 2'',
      ''File 1 (notes.txt): File size 3 B exceeds maximum allowed size 2 B'',
      ''File 1 (notes.txt): File type application/pdf is not allowed. Allowed types: image/*'',
      ''File 1 (notes.txt): File extension txt is not allowed. Allowed extensions: png'',
      ''File 1 (notes.txt): File signature does not match expected type application/pdf'',
      ''File 2 (unknown): File name is required'']"
proof -
  have one: "errors (validateFile quiet_runtime images_only_config (Some mislabelled_file)) =
     [''File size 3 B exceeds maximum allowed size 2 B'',
      ''File type application/pdf is not allowed. Allowed types: image/*'',
      ''File extension txt is not allowed. Allowed extensions: png'',
      ''File signature does not match expected type application/pdf'']"
    by (simp add: validateFile_def
      validateMagicBytes_def validateMagicBytes_try_def signatures_get_def
      signatures_def images_only_config_def mislabelled_file_def file_size_def
      isMatchingMimeType_def endsWith_def getFileExtension_def toLowerCase_def
      toLowerCase_char_def size_error_def type_error_def extension_error_def formatBytes_def
      toFixed2_def hundredths_string_def sizes_def digit_char_def floor_log1024.simps string_of_nat.simps generateFileHash_def
      quiet_runtime_def Let_def)
  have two: "errors (validateFile quiet_runtime images_only_config (Some nameless_file)) =
     [''File name is required'']"
    by (simp add: validateFile_def nameless_file_def)
  have names: "file_name mislabelled_file = ''notes.txt''" "file_name nameless_file = []"
    by (simp_all add: mislabelled_file_def nameless_file_def)
  have cfg: "maxFiles images_only_config = 1"
    by (simp add: images_only_config_def)
  show ?thesis
    using validateFiles_errors [of quiet_runtime images_only_config
        "[Some mislabelled_file, Some nameless_file]" mislabelled_file]
    by (simp add: one two names cfg enumerate_eq_zip too_many_error_def label_prefix_def
        file_label_def digit_char_def string_of_nat.simps)
qed

section \<open>The size limit\<close>

lemma floor_log1024_bounds:
  "n \<noteq> 0 \<Longrightarrow> 1024 ^ floor_log1024 n \<le> n \<and> n < 1024 ^ Suc (floor_log1024 n)"
proof (induction n rule: floor_log1024.induct)
  case (1 n)
  show ?case
  proof (cases "n < 1024")
    case True
    with 1 show ?thesis by (simp add: floor_log1024.simps)
  next
    case False
    then have "n div 1024 \<noteq> 0"
      by simp
    with 1 False have ih: "1024 ^ floor_log1024 (n div 1024) \<le> n div 1024"
      "n div 1024 < 1024 ^ Suc (floor_log1024 (n div 1024))"
      by simp_all
    have eq: "floor_log1024 n = Suc (floor_log1024 (n div 1024))"
      using False by (subst floor_log1024.simps) simp
    have lo: "1024 * (n div 1024) \<le> n"
      by simp
    have hi: "n < 1024 * (n div 1024 + 1)"
      by (simp add: dividend_less_times_div)
    from ih(1) lo have "1024 ^ Suc (floor_log1024 (n div 1024)) \<le> n"
      by (simp add: le_trans mult_le_mono2)
    moreover from ih(2) have "n div 1024 + 1 \<le> 1024 ^ Suc (floor_log1024 (n div 1024))"
      by simp
    then have "1024 * (n div 1024 + 1) \<le> 1024 ^ Suc (Suc (floor_log1024 (n div 1024)))"
      by (simp only: power_Suc mult_le_mono2)
    with hi have "n < 1024 ^ Suc (Suc (floor_log1024 (n div 1024)))"
      by (rule less_le_trans)
    ultimately show ?thesis
      by (simp only: eq)
  qed
qed

lemma floor_log1024_less_4:
  assumes "n < 1024 ^ 4"
  shows "floor_log1024 n < 4"
proof (cases "n = 0")
  case True
  then show ?thesis by (simp add: floor_log1024.simps)
next
  case False
  from floor_log1024_bounds [OF False] assms
  have "(1024::nat) ^ floor_log1024 n < 1024 ^ 4"
    by (meson le_less_trans)
  then show ?thesis
    by (simp only: power_strict_increasing_iff [of "1024::nat"]) 
qed

text \<open>
  C8, as stated, fails: a file without a name that exceeds the size limit gets only the
  error \<open>File name is required\<close>; no error names the sizes.
\<close>

theorem nameless_oversized_file_has_no_size_error:
  "file_size nameless_file > maxFileSize images_only_config \<and>
   size_error images_only_config nameless_file
     \<notin> set (errors (validateFile quiet_runtime images_only_config (Some nameless_file)))"
  by (simp add: validateFile_def nameless_file_def images_only_config_def file_size_def
      size_error_def)

text \<open>
  C8, amended. For every file with a non-empty name and a size strictly greater than
  \<open>config.maxFileSize\<close>, \<open>validateFile\<close> is invalid and reports
  \<open>File size X exceeds maximum allowed size Y\<close>, with X and Y the two sizes as
  \<open>formatBytes\<close> writes them. Below \<open>1024^4\<close> bytes \<open>formatBytes\<close> writes a size as its
  quotient by \<open>1024^i\<close>, rounded to hundredths, and the unit B, KB, MB or GB for
  \<open>i = 0, 1, 2, 3\<close>, where \<open>1024^i\<close> is the largest power of 1024 not above the size.
\<close>

theorem oversized_file_error:
  "(file_name file \<noteq> [] \<and> file_size file > maxFileSize cfg \<longrightarrow>
      \<not> isValid (validateFile rt cfg (Some file)) \<and>
      ''File size '' @ formatBytes (file_size file) @ '' exceeds maximum allowed size ''
        @ formatBytes (maxFileSize cfg)
        \<in> set (errors (validateFile rt cfg (Some file)))) \<and>
   (n < 1024 ^ 4 \<longrightarrow>
      (\<exists>i < 4. formatBytes n
                  = hundredths_string (toFixed2 n (1024 ^ i)) @ '' ''
                      @ [''B'', ''KB'', ''MB'', ''GB''] ! i \<and>
               (n = 0 \<or> 1024 ^ i \<le> n \<and> n < 1024 ^ Suc i)))"
proof (rule conjI; rule impI)
  assume a: "file_name file \<noteq> [] \<and> file_size file > maxFileSize cfg"
  then have "size_error cfg file \<in> set (check_errors cfg file)"
    by (simp add: check_errors_def size_violated_def)
  with a show "\<not> isValid (validateFile rt cfg (Some file)) \<and>
      ''File size '' @ formatBytes (file_size file) @ '' exceeds maximum allowed size ''
        @ formatBytes (maxFileSize cfg)
        \<in> set (errors (validateFile rt cfg (Some file)))"
    by (auto simp: validateFile_isValid validateFile_errors size_error_def)
next
  assume n: "n < 1024 ^ 4"
  show "\<exists>i < 4. formatBytes n
                  = hundredths_string (toFixed2 n (1024 ^ i)) @ '' ''
                      @ [''B'', ''KB'', ''MB'', ''GB''] ! i \<and>
               (n = 0 \<or> 1024 ^ i \<le> n \<and> n < 1024 ^ Suc i)"
  proof (cases "n = 0")
    case True
    then have "formatBytes n = hundredths_string (toFixed2 n (1024 ^ 0)) @ '' ''
                      @ [''B'', ''KB'', ''MB'', ''GB''] ! 0"
      by (simp add: formatBytes_def toFixed2_def hundredths_string_def digit_char_def
          string_of_nat.simps)
    with True show ?thesis
      by (intro exI [of _ 0]) simp
  next
    case False
    let ?i = "floor_log1024 n"
    have i: "?i < 4"
      by (rule floor_log1024_less_4 [OF n])
    have "formatBytes n = hundredths_string (toFixed2 n (1024 ^ ?i)) @ '' ''
                      @ [''B'', ''KB'', ''MB'', ''GB''] ! ?i"
      using False i by (simp add: formatBytes_def sizes_def Let_def)
    with i floor_log1024_bounds [OF False] show ?thesis
      by blast
  qed
qed

theorem oversized_file_error_witness:
  "file_name mislabelled_file \<noteq> [] \<and>
   file_size mislabelled_file > maxFileSize images_only_config \<and>
   \<not> isValid (validateFile quiet_runtime images_only_config (Some mislabelled_file)) \<and>
   ''File size 3 B exceeds maximum allowed size 2 B''
     \<in> set (errors (validateFile quiet_runtime images_only_config (Some mislabelled_file))) \<and>
   (1536::nat) < 1024 ^ 4 \<and> formatBytes 1536 = ''1.5 KB''"
  using oversized_file_error [of mislabelled_file images_only_config quiet_runtime 1536]
  by (simp add: mislabelled_file_def images_only_config_def file_size_def formatBytes_def
      toFixed2_def hundredths_string_def sizes_def digit_char_def floor_log1024.simps string_of_nat.simps)

section \<open>The MIME allow-list\<close>

lemma isMatchingMimeType_iff:
  "isMatchingMimeType t a =
     (if endsWith a ''/*'' then prefix (take (length a - 2) a) t else t = a)"
  by (simp add: isMatchingMimeType_def Let_def startsWith_prefix)

lemma type_error_in_errors:
  assumes "file_name file \<noteq> []"
  shows "(type_error cfg file \<in> set (errors (validateFile rt cfg (Some file))))
           = type_violated cfg file"
proof -
  have sig: "\<And>e. signature_failure file = Some e \<Longrightarrow> e \<noteq> type_error cfg file"
    by (auto simp: type_error_def dest!: signature_failure_cases)
  show ?thesis
    unfolding validateFile_errors [OF assms] check_errors_def
    by (cases "signature_failure file")
      (auto simp: type_error_def size_error_def extension_error_def dest!: sig)
qed

text \<open>
  C9, as stated, fails: for a file without a name a declared type that matches no entry of
  the allow-list produces no error that lists the allowed set, because \<open>validateFile\<close>
  returns before the MIME check.
\<close>

theorem nameless_file_has_no_type_error:
  "allowedMimeTypes images_only_config \<noteq> [] \<and>
   \<not> list_ex (isMatchingMimeType (file_type nameless_file)) (allowedMimeTypes images_only_config) \<and>
   type_error images_only_config nameless_file
     \<notin> set (errors (validateFile quiet_runtime images_only_config (Some nameless_file)))"
  by (simp add: validateFile_def nameless_file_def images_only_config_def type_error_def
      isMatchingMimeType_def endsWith_def)

text \<open>
  C9, amended. For a file with a non-empty name and a non-empty \<open>config.allowedMimeTypes\<close>:
  a declared type that equals some entry, or that begins with an entry ending in \<open>/*\<close> up
  to and including its slash, is accepted (no type error); a declared type that equals no
  entry and does not begin with the part before \<open>/*\<close> of any such entry makes the file
  invalid with the hard error that lists the allowed set.
\<close>

theorem mime_allow_list:
  assumes "file_name file \<noteq> []" and "allowedMimeTypes cfg \<noteq> []"
  shows "((\<exists>a \<in> set (allowedMimeTypes cfg).
             file_type file = a \<or> (endsWith a ''/*'' \<and> prefix (butlast a) (file_type file))) \<longrightarrow>
            type_error cfg file \<notin> set (errors (validateFile rt cfg (Some file)))) \<and>
         ((\<forall>a \<in> set (allowedMimeTypes cfg).
             file_type file \<noteq> a \<and>
             (endsWith a ''/*'' \<longrightarrow> \<not> prefix (take (length a - 2) a) (file_type file))) \<longrightarrow>
            \<not> isValid (validateFile rt cfg (Some file)) \<and>
            ''File type '' @ file_type file @ '' is not allowed. Allowed types: ''
               @ join '', '' (allowedMimeTypes cfg)
              \<in> set (errors (validateFile rt cfg (Some file))))"
proof (rule conjI; rule impI)
  assume "\<exists>a \<in> set (allowedMimeTypes cfg).
             file_type file = a \<or> (endsWith a ''/*'' \<and> prefix (butlast a) (file_type file))"
  then obtain a where a: "a \<in> set (allowedMimeTypes cfg)"
    and m: "file_type file = a \<or> (endsWith a ''/*'' \<and> prefix (butlast a) (file_type file))"
    by blast
  have "isMatchingMimeType (file_type file) a"
  proof (cases "endsWith a ''/*''")
    case True
    have "take (length a - 2) a = take (length a - 2) (butlast a)"
      by (simp add: butlast_conv_take min_def)
    then have one: "prefix (take (length a - 2) a) (butlast a)"
      using take_is_prefix [of "length a - 2" "butlast a"] by simp
    have two: "prefix (butlast a) a"
      by (rule prefixeq_butlast)
    from m have "prefix (butlast a) (file_type file)"
      using two by auto
    with one have "prefix (take (length a - 2) a) (file_type file)"
      by (rule prefix_order.trans)
    with True show ?thesis
      by (simp add: isMatchingMimeType_iff)
  next
    case False
    with m show ?thesis
      by (simp add: isMatchingMimeType_iff)
  qed
  with a have "\<not> type_violated cfg file"
    by (auto simp: type_violated_def list_ex_iff)
  then show "type_error cfg file \<notin> set (errors (validateFile rt cfg (Some file)))"
    by (simp add: type_error_in_errors [OF assms(1)])
next
  assume "\<forall>a \<in> set (allowedMimeTypes cfg).
             file_type file \<noteq> a \<and>
             (endsWith a ''/*'' \<longrightarrow> \<not> prefix (take (length a - 2) a) (file_type file))"
  then have "type_violated cfg file"
    using assms(2) by (auto simp: type_violated_def list_ex_iff isMatchingMimeType_iff)
  then have "type_error cfg file \<in> set (errors (validateFile rt cfg (Some file)))"
    by (simp add: type_error_in_errors [OF assms(1)])
  then show "\<not> isValid (validateFile rt cfg (Some file)) \<and>
            ''File type '' @ file_type file @ '' is not allowed. Allowed types: ''
               @ join '', '' (allowedMimeTypes cfg)
              \<in> set (errors (validateFile rt cfg (Some file)))"
    by (auto simp: validateFile_isValid type_error_def)
qed

theorem mime_allow_list_witness:
  "file_name sample_jpeg_file \<noteq> [] \<and> file_name mislabelled_file \<noteq> [] \<and>
   allowedMimeTypes images_only_config \<noteq> [] \<and>
   ''image/*'' \<in> set (allowedMimeTypes images_only_config) \<and> endsWith ''image/*'' ''/*'' \<and>
   prefix (butlast ''image/*'') (file_type sample_jpeg_file) \<and>
   type_error images_only_config sample_jpeg_file
     \<notin> set (errors (validateFile quiet_runtime images_only_config (Some sample_jpeg_file))) \<and>
   \<not> prefix (take (length ''image/*'' - 2) ''image/*'') (file_type mislabelled_file) \<and>
   \<not> isValid (validateFile quiet_runtime images_only_config (Some mislabelled_file)) \<and>
   ''File type application/pdf is not allowed. Allowed types: image/*''
     \<in> set (errors (validateFile quiet_runtime images_only_config (Some mislabelled_file)))"
  using mime_allow_list [of sample_jpeg_file images_only_config quiet_runtime]
    mime_allow_list [of mislabelled_file images_only_config quiet_runtime]
  by (simp add: sample_jpeg_file_def mislabelled_file_def images_only_config_def endsWith_def)

section \<open>The scan step of the upload pipeline\<close>

text \<open>
  The scan is nested inside the test for a \<open>beforeScan\<close> hook: with no hook registered the
  step does nothing and yields no scan result; with a hook that returns \<open>true\<close> the scanner
  runs.
\<close>

lemma no_hook_no_scan:
  "beforeScan hooks = None \<Longrightarrow>
     security_scanning rt hooks scanConfig file options = done_with None"
  by (simp add: security_scanning_def)

lemma hook_allows_scan:
  assumes "requireScan options" and "beforeScan hooks = Some hook" and "hook file = Inr True"
  shows "ScannerRun (file_name file)
           \<in> set (snd (security_scanning rt hooks scanConfig file options events))"
proof -
  obtain r where r: "scanFile rt scanConfig (Some file) = Inr r"
    by (cases "scanFile_try rt scanConfig (Some file)") (simp_all add: scanFile_def)
  show ?thesis
    using assms r
    by (cases "afterScan hooks"; cases "isClean r")
      (auto simp: security_scanning_def call_hook_def await_def record_event_def outcome_def
        done_with_def throw_def audit_log_def split: prod.splits sum.splits)
qed

text \<open>
  C1. With \<open>requireScan = true\<close> the scanner should run unless a registered pre-scan hook
  vetoes it, in particular when no pre-scan hook is registered. The code does not do this:
  for the default options and no hooks, a valid text file is stored without being scanned,
  the upload result has no scan and the status \<open>pending\<close>, and no scanner run is recorded.
\<close>

theorem upload_without_beforeScan_hook_is_not_scanned:
  "requireScan default_options \<and> beforeScan no_hooks = None \<and>
   uploadFile sample_backend hashing_runtime no_hooks SECURITY_CONFIGS_MODERATE sample_text_file
       default_options [] =
     (Inr \<lparr>res_id = ''id-1'', res_filename = ''notes-1000-r2.txt'',
            res_originalFilename = ''notes.txt'', res_fileSize = 2, res_mimeType = ''text/plain'',
            res_filePath = ''user-1/1000-r1.txt'', res_fileHash = ''8f434346648f6b96'',
            res_status = ''pending'', res_expiresAt = 259201000, res_securityScan = None\<rparr>,
      [StorageUploaded ''user-1/1000-r1.txt'', RecordInserted ''id-1'',
       AuditLogged ''file_upload_success''])"
  by (simp add: uploadFile_def uploadFile_try_def security_scanning_def default_options_def
      no_hooks_def sample_backend_def hashing_runtime_def quiet_runtime_def sample_text_file_def
      generateFileMetadata_def and_then_def await_def outcome_def done_with_def throw_def
      record_event_def audit_log_def call_hook_def storage_backend_upload_def
      createFileRecord_def generateFilePath_def generateUniqueFilename_def baseName_def
      pop_extension_def isImageFile_def file_size_def validateFile_def DEFAULT_CONFIGS_GENERAL_def
      isMatchingMimeType_def endsWith_def getFileExtension_def toLowerCase_def
      toLowerCase_char_def validateMagicBytes_def validateMagicBytes_try_def signatures_get_def
      signatures_def generateFileHash_def string_of_nat.simps digit_char_def Let_def)

section \<open>Two further observations\<close>

text \<open>
  \<open>isMatchingMimeType\<close> cuts two characters off an entry such as \<open>image/*\<close>, so the slash
  goes too and a type outside the family matches. \<open>formatBytes\<close> has four units, so a
  size of \<open>1024^4\<close> bytes or more gets the unit \<open>undefined\<close>.
\<close>

lemma wildcard_matches_outside_family:
  "isMatchingMimeType ''imagex/png'' ''image/*''"
  by (simp add: isMatchingMimeType_def endsWith_def)

lemma formatBytes_beyond_GB: "formatBytes (1024 ^ 4) = ''1 undefined''"
  by (simp add: formatBytes_def toFixed2_def hundredths_string_def sizes_def digit_char_def
      floor_log1024.simps string_of_nat.simps)

end
